theory Spec2Isabelle
  imports Complex_Main "HOL-Library.Char_ord" "HOL-Library.List_Lexorder"
begin

section \<open>Python values and errors\<close>

text \<open>
  The notebooks are Python 3. Every exception the modelled code can raise is a value of
  \<open>py_error\<close>; a computation that may raise returns \<open>py_error + 'a\<close> with \<open>Inl\<close> the
  exception. Strings are byte strings in UTF-8; the lexicographic order on bytes
  (\<open>Char_ord\<close>, \<open>List_Lexorder\<close>) agrees with Python's code point order on \<open>str\<close>.
\<close>

datatype py_error =
    FileNotFoundError
  | NotADirectoryError
  | KeyError
  | ValueError
  | ZeroDivisionError
  | IOError
  | DuplicateFlagError

text \<open>A comprehension or loop whose body may raise: the first exception ends it.\<close>

fun traverse :: "('a \<Rightarrow> 'e + 'b) \<Rightarrow> 'a list \<Rightarrow> 'e + 'b list" where
  "traverse f [] = Inr []"
| "traverse f (x # xs) =
     (case f x of
        Inl e \<Rightarrow> Inl e
      | Inr y \<Rightarrow> (case traverse f xs of Inl e \<Rightarrow> Inl e | Inr ys \<Rightarrow> Inr (y # ys)))"

text \<open>
  Python's slice \<open>xs[start:stop]\<close> with step 1: a negative bound counts from the end, and
  both bounds are clamped into \<open>0..len(xs)\<close>; an empty range gives the empty list.
\<close>

definition slice_index :: "nat \<Rightarrow> int \<Rightarrow> nat" where
  "slice_index n i =
     (if i < 0 then (if i + int n < 0 then 0 else nat (i + int n))
      else if int n < i then n else nat i)"

definition py_slice :: "'a list \<Rightarrow> int \<Rightarrow> int \<Rightarrow> 'a list" where
  "py_slice xs start stop =
     (let lo = slice_index (length xs) start;
          hi = slice_index (length xs) stop
      in take (hi - lo) (drop lo xs))"

section \<open>The file system as the enumerator sees it\<close>

text \<open>
  \<open>os.listdir\<close> is the only file system call of \<open>create_image_list\<close>. The file system is
  a parameter: a function from a path to the names in that directory, in the order the
  operating system lists them, or to the exception \<open>os.listdir\<close> raises there.
\<close>

type_synonym filesystem = "string \<Rightarrow> py_error + string list"

text \<open>\<open>os.path.join(a, *p)\<close> of \<open>posixpath\<close>.\<close>

definition join_step :: "string \<Rightarrow> string \<Rightarrow> string" where
  "join_step path b =
     (if b \<noteq> [] \<and> hd b = CHR ''/'' then b
      else if path = [] \<or> last path = CHR ''/'' then path @ b
      else path @ ''/'' @ b)"

definition path_join :: "string \<Rightarrow> string list \<Rightarrow> string" where
  "path_join a p = foldl join_step a p"

section \<open>create_image_list (Sandbox/TrainingCodeSnippets.ipynb)\<close>

text \<open>
  \<^verbatim>\<open>label_map = {key: value for (key, value) in zip(folders, indexes)}\<close>: a later
  pair overwrites an earlier one with the same key.
\<close>

definition label_map_of :: "string list \<Rightarrow> nat list \<Rightarrow> (string \<rightharpoonup> nat)" where
  "label_map_of folders indexes =
     foldl (\<lambda>m (k, v). m(k \<mapsto> v)) Map.empty (zip folders indexes)"

text \<open>
  The inner loop of the comprehension, for one folder: one pair
  \<open>(os.path.join(img_dir, folder, image), label_map[folder])\<close> for each image that
  \<open>os.listdir(os.path.join(img_dir, folder))\<close> lists.
\<close>

definition folder_images ::
  "filesystem \<Rightarrow> string \<Rightarrow> (string \<rightharpoonup> nat) \<Rightarrow> string \<Rightarrow> py_error + (string \<times> nat) list" where
  "folder_images listdir img_dir label_map folder =
     (case listdir (path_join img_dir [folder]) of
        Inl e \<Rightarrow> Inl e
      | Inr images \<Rightarrow>
          traverse (\<lambda>image.
            case label_map folder of
              None \<Rightarrow> Inl KeyError
            | Some label \<Rightarrow> Inr (path_join img_dir [folder, image], label)) images)"

fun labeled_image_list ::
  "filesystem \<Rightarrow> string \<Rightarrow> (string \<rightharpoonup> nat) \<Rightarrow> string list \<Rightarrow> py_error + (string \<times> nat) list" where
  "labeled_image_list listdir img_dir label_map [] = Inr []"
| "labeled_image_list listdir img_dir label_map (folder # rest) =
     (case folder_images listdir img_dir label_map folder of
        Inl e \<Rightarrow> Inl e
      | Inr rows \<Rightarrow>
          (case labeled_image_list listdir img_dir label_map rest of
             Inl e \<Rightarrow> Inl e
           | Inr more \<Rightarrow> Inr (rows @ more)))"

text \<open>
  \<^verbatim>\<open>zip(*labeled_image_list)\<close> on a list of pairs: with no pair, \<open>zip()\<close> yields nothing;
  otherwise it yields two tuples, the paths and then the labels.
\<close>

datatype column = Paths "string list" | Labels "nat list"

definition zip_star :: "(string \<times> nat) list \<Rightarrow> column list" where
  "zip_star rows = (if rows = [] then [] else [Paths (map fst rows), Labels (map snd rows)])"

definition create_image_list :: "filesystem \<Rightarrow> string \<Rightarrow> py_error + column list" where
  "create_image_list listdir img_dir =
     (case listdir img_dir of
        Inl e \<Rightarrow> Inl e
      | Inr entries \<Rightarrow>
          (let folders = sort entries;
               indexes = [0..<length folders];
               label_map = label_map_of folders indexes
           in case labeled_image_list listdir img_dir label_map folders of
                Inl e \<Rightarrow> Inl e
              | Inr rows \<Rightarrow> Inr (zip_star rows)))"

text \<open>
  \<^verbatim>\<open>img_list, label_list = create_image_list(img_dir)\<close>: unpacking into two targets
  raises \<open>ValueError\<close> unless the iterable yields exactly two items.
\<close>

fun unpack2 :: "'a list \<Rightarrow> py_error + ('a \<times> 'a)" where
  "unpack2 [a, b] = Inr (a, b)"
| "unpack2 _ = Inl ValueError"

definition enumerate_images :: "filesystem \<Rightarrow> string \<Rightarrow> py_error + (column \<times> column)" where
  "enumerate_images listdir img_dir =
     (case create_image_list listdir img_dir of
        Inl e \<Rightarrow> Inl e
      | Inr cols \<Rightarrow> unpack2 cols)"

section \<open>ImageGenerator (Sandbox/TrainingCodeSnippets.ipynb)\<close>

text \<open>
  The generator holds the image list, the batch size and the optional preprocessing
  function. \<open>image.load_img\<close> followed by \<open>image.img_to_array\<close> is the parameter
  \<open>load\<close>: it gives the array of an image file or the exception reading it raises.
\<close>

record 'img ImageGenerator =
  image_list :: "string list"
  preprocess_fn :: "('img list \<Rightarrow> 'img list) option"
  batch_size :: int

definition ImageGenerator_init ::
  "string list \<Rightarrow> ('img list \<Rightarrow> 'img list) option \<Rightarrow> int \<Rightarrow> 'img ImageGenerator" where
  "ImageGenerator_init il pf bs = \<lparr>image_list = il, preprocess_fn = pf, batch_size = bs\<rparr>"

text \<open>\<^verbatim>\<open>__len__\<close>: \<open>len(self.image_list) // self.batch_size\<close>, Python's floor division.\<close>

definition generator_len :: "'img ImageGenerator \<Rightarrow> py_error + int" where
  "generator_len g =
     (if batch_size g = 0 then Inl ZeroDivisionError
      else Inr (int (length (image_list g)) div batch_size g))"

text \<open>The slice \<^verbatim>\<open>__getitem__\<close> takes from the image list.\<close>

definition batch_pathnames :: "'img ImageGenerator \<Rightarrow> int \<Rightarrow> string list" where
  "batch_pathnames g index =
     py_slice (image_list g) (index * batch_size g) ((index + 1) * batch_size g)"

text \<open>\<^verbatim>\<open>__load_images\<close>: load each path in order, then preprocess the whole batch.\<close>

definition load_images ::
  "(string \<Rightarrow> py_error + 'img) \<Rightarrow> 'img ImageGenerator \<Rightarrow> string list \<Rightarrow> py_error + 'img list" where
  "load_images load g pathnames =
     (case traverse load pathnames of
        Inl e \<Rightarrow> Inl e
      | Inr images \<Rightarrow>
          (case preprocess_fn g of
             None \<Rightarrow> Inr images
           | Some f \<Rightarrow> Inr (f images)))"

definition getitem ::
  "(string \<Rightarrow> py_error + 'img) \<Rightarrow> 'img ImageGenerator \<Rightarrow> int \<Rightarrow> py_error + 'img list" where
  "getitem load g index = load_images load g (batch_pathnames g index)"

text \<open>
  Keras drives the generator: \<open>predict_generator\<close> with no \<open>steps\<close> argument asks for
  \<open>len(generator)\<close> batches, those of index \<open>0, 1, ..., len(generator) - 1\<close>, in this order.
  Python's \<open>len\<close> raises \<open>ValueError\<close> when \<^verbatim>\<open>__len__\<close> returns a negative number.
\<close>

definition emitted_indices :: "'img ImageGenerator \<Rightarrow> py_error + int list" where
  "emitted_indices g =
     (case generator_len g of
        Inl e \<Rightarrow> Inl e
      | Inr n \<Rightarrow> if n < 0 then Inl ValueError else Inr (map int [0..<nat n]))"

definition emitted_batches ::
  "(string \<Rightarrow> py_error + 'img) \<Rightarrow> 'img ImageGenerator \<Rightarrow> py_error + 'img list list" where
  "emitted_batches load g =
     (case emitted_indices g of
        Inl e \<Rightarrow> Inl e
      | Inr idx \<Rightarrow> traverse (getitem load g) idx)"

section \<open>ResNetFeaturizer and the dataset preparation cell (Sandbox/TrainingCodeSnippets.ipynb)\<close>

text \<open>
  \<open>ResNetFeaturizer.extract\<close> builds an \<open>ImageGenerator\<close> with the default batch size 64 and
  \<open>resnet50.preprocess_input\<close>, and hands it to \<open>predict_generator\<close>, which returns the
  predictions of all the batches it consumed, one row for each image of a batch, in order.
  The network is the parameter \<open>base_model\<close> (one feature vector for an image).
\<close>

definition featurizer_extract ::
  "(string \<Rightarrow> py_error + 'img) \<Rightarrow> ('img list \<Rightarrow> 'img list) \<Rightarrow> ('img \<Rightarrow> 'feat) \<Rightarrow>
   string list \<Rightarrow> py_error + 'feat list" where
  "featurizer_extract load preprocess_input base_model imgs =
     (let image_generator = ImageGenerator_init imgs (Some preprocess_input) 64
      in case emitted_batches load image_generator of
           Inl e \<Rightarrow> Inl e
         | Inr batches \<Rightarrow> Inr (concat (map (map base_model) batches)))"

text \<open>
  The cell after \<open>train_test_split\<close>, from its four outputs:
  \<^verbatim>\<open>
  train_features = featurizer.extract(train_imgs)
  valid_features = featurizer.extract(valid_imgs)
  train_labels = train_labels[0:len(train_features)]
  valid_labels = train_labels[0:len(valid_features)]
  \<close>
  The result is the four arrays the training cell then uses.
\<close>

definition prepare_datasets ::
  "(string \<Rightarrow> py_error + 'img) \<Rightarrow> ('img list \<Rightarrow> 'img list) \<Rightarrow> ('img \<Rightarrow> 'feat) \<Rightarrow>
   string list \<Rightarrow> string list \<Rightarrow> nat list \<Rightarrow> nat list \<Rightarrow>
   py_error + ('feat list \<times> 'feat list \<times> nat list \<times> nat list)" where
  "prepare_datasets load preprocess_input base_model train_imgs valid_imgs train_labels valid_labels =
     (case featurizer_extract load preprocess_input base_model train_imgs of
        Inl e \<Rightarrow> Inl e
      | Inr train_features \<Rightarrow>
          (case featurizer_extract load preprocess_input base_model valid_imgs of
             Inl e \<Rightarrow> Inl e
           | Inr valid_features \<Rightarrow>
               (let train_labels' = py_slice train_labels 0 (int (length train_features));
                    valid_labels' = py_slice train_labels' 0 (int (length valid_features))
                in Inr (train_features, valid_features, train_labels', valid_labels'))))"

section \<open>The command line flags of train.py (02-train.ipynb and the tuning notebook)\<close>

text \<open>
  \<open>tf.app.flags.DEFINE_integer\<close>, \<open>DEFINE_float\<close> and \<open>DEFINE_string\<close> add a flag of that
  type, with its default and help text, to the registry \<open>FLAGS\<close>; defining a name twice
  raises \<open>DuplicateFlagError\<close>. A float default is kept as the decimal literal of the
  source.
\<close>

datatype flag_default = IntegerDefault int | FloatDefault real | StringDefault string

record flag =
  flag_name :: string
  flag_default :: flag_default
  flag_help :: string

definition DEFINE :: "flag \<Rightarrow> flag list \<Rightarrow> py_error + flag list" where
  "DEFINE f registry =
     (if flag_name f \<in> set (map flag_name registry) then Inl DuplicateFlagError
      else Inr (registry @ [f]))"

definition DEFINE_integer :: "string \<Rightarrow> int \<Rightarrow> string \<Rightarrow> flag list \<Rightarrow> py_error + flag list" where
  "DEFINE_integer name dflt help =
     DEFINE \<lparr>flag_name = name, flag_default = IntegerDefault dflt, flag_help = help\<rparr>"

definition DEFINE_float :: "string \<Rightarrow> real \<Rightarrow> string \<Rightarrow> flag list \<Rightarrow> py_error + flag list" where
  "DEFINE_float name dflt help =
     DEFINE \<lparr>flag_name = name, flag_default = FloatDefault dflt, flag_help = help\<rparr>"

definition DEFINE_string :: "string \<Rightarrow> string \<Rightarrow> string \<Rightarrow> flag list \<Rightarrow> py_error + flag list" where
  "DEFINE_string name dflt help =
     DEFINE \<lparr>flag_name = name, flag_default = StringDefault dflt, flag_help = help\<rparr>"

text \<open>Statements run in order; the first exception ends the script.\<close>

definition run_statements :: "('s \<Rightarrow> 'e + 's) list \<Rightarrow> 's \<Rightarrow> 'e + 's" where
  "run_statements stmts s0 =
     foldl (\<lambda>r stmt. case r of Inl e \<Rightarrow> Inl e | Inr s \<Rightarrow> stmt s) (Inr s0) stmts"

text \<open>The block of definitions, the same in both copies of the script.\<close>

definition train_flags :: "py_error + flag list" where
  "train_flags =
     run_statements
       [DEFINE_integer ''batch_size'' 32 ''Number of images per batch'',
        DEFINE_integer ''epochs'' 10 ''Number of epochs to train'',
        DEFINE_integer ''units'' 512 ''Number of epochs to train'',
        DEFINE_float ''l1'' 0.01 ''l1 regularization'',
        DEFINE_float ''l2'' 0.01 ''l2 regularization'',
        DEFINE_string ''data_folder'' ''./bottleneck'' ''Folder with bottleneck features and labels'',
        DEFINE_string ''train_file_name'' ''aerial_bottleneck_train.h5'' ''Training file name'',
        DEFINE_string ''valid_file_name'' ''aerial_bottleneck_valid.h5'' ''Validation file name'']
       []"

section \<open>Compute target setup (02-train.ipynb and the tuning notebook)\<close>

text \<open>
  The Azure ML SDK is a parameter: what the lookup of a target by name gives, the name
  and the type of a target, what creation gives, and what waiting for the new target
  gives. An exception is either a \<open>ComputeTargetException\<close> or any other exception,
  which the \<open>except\<close> clause does not match. The cell's result is the list of SDK calls
  and prints it made, in order, and the target it bound or the exception that left the
  cell.
\<close>

datatype exn = ComputeTargetException | OtherException string

record provisioning =
  vm_size :: string
  autoscale_enabled :: bool
  cluster_min_nodes :: "nat option"
  cluster_max_nodes :: "nat option"

datatype event =
    Printed string
  | CreateCalled string provisioning
  | WaitCalled
  | StatusPrinted

record 'target compute_sdk =
  sdk_lookup :: "string \<Rightarrow> exn + 'target"
  sdk_name :: "'target \<Rightarrow> string"
  sdk_is_batchai :: "'target \<Rightarrow> bool"
  sdk_create :: "string \<Rightarrow> provisioning \<Rightarrow> exn + 'target"
  sdk_wait_for_completion :: "'target \<Rightarrow> exn + unit"

text \<open>
  02-train.ipynb:
  \<^verbatim>\<open>
  try:
      dsvm_compute = DsvmCompute(workspace=ws, name=compute_target_name)
      print('Found existing DSVM:', dsvm_compute.name)
  except ComputeTargetException:
      dsvm_config = DsvmCompute.provisioning_configuration(vm_size=compute_target_type)
      dsvm_compute = DsvmCompute.create(ws, name=compute_target_name, provisioning_configuration=dsvm_config)
      dsvm_compute.wait_for_completion(show_output=True)
  \<close>
\<close>

definition setup_dsvm :: "'target compute_sdk \<Rightarrow> event list \<times> (exn + 'target)" where
  "setup_dsvm sdk =
     (let compute_target_name = ''gpudsvm''; compute_target_type = ''Standard_NC6''
      in case sdk_lookup sdk compute_target_name of
           Inr dsvm_compute \<Rightarrow>
             ([Printed (''Found existing DSVM: '' @ sdk_name sdk dsvm_compute)], Inr dsvm_compute)
         | Inl ComputeTargetException \<Rightarrow>
             (let dsvm_config = \<lparr>vm_size = compute_target_type, autoscale_enabled = False,
                                 cluster_min_nodes = None, cluster_max_nodes = None\<rparr>
              in case sdk_create sdk compute_target_name dsvm_config of
                   Inl e \<Rightarrow> ([CreateCalled compute_target_name dsvm_config], Inl e)
                 | Inr dsvm_compute \<Rightarrow>
                     (case sdk_wait_for_completion sdk dsvm_compute of
                        Inl e \<Rightarrow> ([CreateCalled compute_target_name dsvm_config, WaitCalled], Inl e)
                      | Inr _ \<Rightarrow>
                          ([CreateCalled compute_target_name dsvm_config, WaitCalled],
                           Inr dsvm_compute)))
         | Inl (OtherException msg) \<Rightarrow> ([], Inl (OtherException msg)))"

text \<open>
  The tuning notebook: the cluster is named after the workspace; a target found under
  that name is kept whatever its type (the two branches only print); creation asks for
  an autoscaling cluster of 1 to 4 nodes, waits for it and prints its status.
  \<^verbatim>\<open>
  batchai_cluster_name = ws.name + 'gpucls'
  vim_size = "STANDARD_NC6"
  try:
      compute_target = ComputeTarget(workspace=ws, name=batchai_cluster_name)
      if type(compute_target) is BatchAiCompute:
          print('found compute target {}, just use it.'.format(batchai_cluster_name))
      else:
          print('{} exists but it is not a Batch AI cluster. Please choose a different name.'.format(batchai_cluster_name))
  except ComputeTargetException:
      print('creating a new compute target...')
      compute_config = BatchAiCompute.provisioning_configuration(vm_size=vim_size,
          autoscale_enabled=True, cluster_min_nodes=1, cluster_max_nodes=4)
      compute_target = ComputeTarget.create(ws, batchai_cluster_name, compute_config)
      compute_target.wait_for_completion(show_output=True, min_node_count=None, timeout_in_minutes=20)
      print(compute_target.status.serialize())
  \<close>
\<close>

definition setup_batchai :: "string \<Rightarrow> 'target compute_sdk \<Rightarrow> event list \<times> (exn + 'target)" where
  "setup_batchai ws_name sdk =
     (let batchai_cluster_name = ws_name @ ''gpucls''; vim_size = ''STANDARD_NC6''
      in case sdk_lookup sdk batchai_cluster_name of
           Inr compute_target \<Rightarrow>
             (if sdk_is_batchai sdk compute_target
              then ([Printed (''found compute target '' @ batchai_cluster_name @ '', just use it.'')],
                    Inr compute_target)
              else ([Printed (batchai_cluster_name @
                       '' exists but it is not a Batch AI cluster. Please choose a different name.'')],
                    Inr compute_target))
         | Inl ComputeTargetException \<Rightarrow>
             (let compute_config = \<lparr>vm_size = vim_size, autoscale_enabled = True,
                                    cluster_min_nodes = Some 1, cluster_max_nodes = Some 4\<rparr>
              in case sdk_create sdk batchai_cluster_name compute_config of
                   Inl e \<Rightarrow>
                     ([Printed ''creating a new compute target...'',
                       CreateCalled batchai_cluster_name compute_config], Inl e)
                 | Inr compute_target \<Rightarrow>
                     (case sdk_wait_for_completion sdk compute_target of
                        Inl e \<Rightarrow>
                          ([Printed ''creating a new compute target...'',
                            CreateCalled batchai_cluster_name compute_config, WaitCalled], Inl e)
                      | Inr _ \<Rightarrow>
                          ([Printed ''creating a new compute target...'',
                            CreateCalled batchai_cluster_name compute_config, WaitCalled,
                            StatusPrinted],
                           Inr compute_target)))
         | Inl (OtherException msg) \<Rightarrow> ([], Inl (OtherException msg)))"

text \<open>Whether a run of the cell asked the SDK to create a target.\<close>

fun is_create :: "event \<Rightarrow> bool" where
  "is_create (CreateCalled name config) = True"
| "is_create _ = False"

definition created :: "event list \<times> (exn + 'target) \<Rightarrow> bool" where
  "created run = (filter is_create (fst run) \<noteq> [])"

section \<open>Hyperparameter grid (the tuning notebook)\<close>

text \<open>
  The notebook only builds the configuration: the three \<open>choice\<close> lists of
  \<open>GridParameterSampling\<close> and the \<open>HyperDriveRunConfig\<close> with its two bounds.
\<close>

datatype hp_value = IntValue int | FloatValue real

type_synonym parameter_space = "(string \<times> hp_value list) list"

definition ps :: parameter_space where
  "ps = [(''--units'', [IntValue 256, IntValue 512]),
         (''--l1'', [FloatValue 0.001, FloatValue 0.01, FloatValue 0.05]),
         (''--l2'', [FloatValue 0.001, FloatValue 0.01, FloatValue 0.05])]"

record HyperDriveRunConfig =
  hyperparameter_sampling :: parameter_space
  primary_metric_name :: string
  max_total_runs :: nat
  max_concurrent_runs :: nat

definition htc :: HyperDriveRunConfig where
  "htc = \<lparr>hyperparameter_sampling = ps, primary_metric_name = ''validation_acc'',
           max_total_runs = 12, max_concurrent_runs = 4\<rparr>"

text \<open>
  The HyperDrive service, as its documentation describes it (it is not code of this
  repository): grid sampling sweeps the Cartesian product of the choice lists, one run
  for each point, and \<open>max_total_runs\<close> is the upper bound on the number of runs created.
\<close>

fun grid_points :: "parameter_space \<Rightarrow> (string \<times> hp_value) list list" where
  "grid_points [] = [[]]"
| "grid_points ((name, choices) # rest) =
     concat (map (\<lambda>v. map (\<lambda>point. (name, v) # point) (grid_points rest)) choices)"

definition submitted_runs :: "HyperDriveRunConfig \<Rightarrow> (string \<times> hp_value) list list" where
  "submitted_runs config =
     take (max_total_runs config) (grid_points (hyperparameter_sampling config))"

section \<open>Reference values and sample inputs\<close>

text \<open>
  What the enumerator is expected to return for the sorted folder names \<open>folders\<close> when
  \<open>imgs f\<close> is the listing of folder \<open>f\<close>: the images of the first folder with label 0,
  then those of the second with label 1, and so on.
\<close>

definition expected_rows :: "string \<Rightarrow> string list \<Rightarrow> (string \<Rightarrow> string list) \<Rightarrow> (string \<times> nat) list" where
  "expected_rows img_dir folders imgs =
     concat (map (\<lambda>i. map (\<lambda>image. (path_join img_dir [folders ! i, image], i)) (imgs (folders ! i)))
                 [0..<length folders])"

text \<open>A directory with the classes water (3 images) and forest (5 images).\<close>

definition aerial_listdir :: filesystem where
  "aerial_listdir p =
     (if p = ''aerial'' then Inr [''water'', ''forest'']
      else if p = ''aerial/water'' then Inr [''w1.png'', ''w2.png'', ''w3.png'']
      else if p = ''aerial/forest'' then Inr [''f1.png'', ''f2.png'', ''f3.png'', ''f4.png'', ''f5.png'']
      else Inl FileNotFoundError)"

definition aerial_images :: "string \<Rightarrow> string list" where
  "aerial_images f =
     (if f = ''water'' then [''w1.png'', ''w2.png'', ''w3.png'']
      else [''f1.png'', ''f2.png'', ''f3.png'', ''f4.png'', ''f5.png''])"

text \<open>An empty directory.\<close>

definition empty_listdir :: filesystem where
  "empty_listdir p = (if p = ''images'' then Inr [] else Inl FileNotFoundError)"

text \<open>Seven images in batches of three.\<close>

definition demo_generator :: "string ImageGenerator" where
  "demo_generator = ImageGenerator_init [''a'', ''b'', ''c'', ''d'', ''e'', ''f'', ''g''] None 3"

text \<open>Distinct file names for sample image lists: \<open>dir/aa.jpg\<close>, \<open>dir/ab.jpg\<close>, ...\<close>

definition sample_path :: "string \<Rightarrow> nat \<Rightarrow> string" where
  "sample_path dir i = dir @ ''/'' @ [char_of (97 + i div 26), char_of (97 + i mod 26)] @ ''.jpg''"





text \<open>A directory whose two class folders hold no image.\<close>

definition bare_listdir :: filesystem where
  "bare_listdir p =
     (if p = ''aerial'' then Inr [''water'', ''forest'']
      else if p = ''aerial/water'' \<or> p = ''aerial/forest'' then Inr []
      else Inl FileNotFoundError)"

text \<open>Three worlds for the compute target setup: the target exists, it does not, the lookup fails otherwise.\<close>

definition sdk_found :: "string compute_sdk" where
  "sdk_found = \<lparr>sdk_lookup = (\<lambda>name. Inr name), sdk_name = (\<lambda>t. t), sdk_is_batchai = (\<lambda>t. True),
                 sdk_create = (\<lambda>name config. Inr name),
                 sdk_wait_for_completion = (\<lambda>t. Inr ())\<rparr>"

definition sdk_missing :: "string compute_sdk" where
  "sdk_missing = \<lparr>sdk_lookup = (\<lambda>name. Inl ComputeTargetException), sdk_name = (\<lambda>t. t),
                   sdk_is_batchai = (\<lambda>t. True),
                   sdk_create = (\<lambda>name config. Inr name),
                   sdk_wait_for_completion = (\<lambda>t. Inr ())\<rparr>"

definition sdk_failing :: "string compute_sdk" where
  "sdk_failing = \<lparr>sdk_lookup = (\<lambda>name. Inl (OtherException ''ConnectionError'')),
                   sdk_name = (\<lambda>t. t), sdk_is_batchai = (\<lambda>t. True),
                   sdk_create = (\<lambda>name config. Inr name),
                   sdk_wait_for_completion = (\<lambda>t. Inr ())\<rparr>"

section \<open>Properties of the helpers\<close>

lemma traverse_length: "traverse f xs = Inr ys \<Longrightarrow> length ys = length xs"
  by (induction xs arbitrary: ys) (auto split: sum.splits)

lemma traverse_map: "(\<And>x. x \<in> set xs \<Longrightarrow> f x = Inr (h x)) \<Longrightarrow> traverse f xs = Inr (map h xs)"
  by (induction xs) auto

lemma traverse_Inr_elem: "traverse f xs = Inr ys \<Longrightarrow> i < length xs \<Longrightarrow> f (xs ! i) = Inr (ys ! i)"
proof (induction xs arbitrary: ys i)
  case Nil then show ?case by simp
next
  case (Cons x xs)
  then show ?case by (cases i) (auto split: sum.splits)
qed

lemma slice_index_nat: "slice_index n (int a) = min a n"
  by (simp add: slice_index_def)

lemma py_slice_nat: "py_slice xs (int a) (int b) = take (min b (length xs) - min a (length xs)) (drop a xs)"
  by (simp add: py_slice_def slice_index_nat Let_def min_def)

lemma batch_bounds:
  fixes B M i :: nat
  assumes "i < M div B"
  shows "(i + 1) * B \<le> M"
proof -
  have "Suc i \<le> M div B" using assms by simp
  then have "Suc i * B \<le> (M div B) * B" by (rule mult_le_mono1)
  also have "\<dots> \<le> M" by simp
  finally show ?thesis by simp
qed

lemma batch_pathnames_nat:
  assumes B: "batch_size g = int B" and i: "i < length (image_list g) div B"
  shows "batch_pathnames g (int i) = take B (drop (i * B) (image_list g))"
proof -
  have le: "(i + 1) * B \<le> length (image_list g)" using i by (rule batch_bounds)
  then have le': "i * B \<le> length (image_list g)" by simp
  have "batch_pathnames g (int i) = py_slice (image_list g) (int (i * B)) (int ((i + 1) * B))"
    by (simp add: batch_pathnames_def B algebra_simps)
  also have "\<dots> = take ((i + 1) * B - i * B) (drop (i * B) (image_list g))"
    using le le' by (simp only: py_slice_nat min_absorb1)
  finally show ?thesis by simp
qed

lemma concat_batches:
  "n * B \<le> length xs \<Longrightarrow> concat (map (\<lambda>i. take B (drop (i * B) xs)) [0..<n]) = take (n * B) xs"
proof (induction n)
  case 0 then show ?case by simp
next
  case (Suc n)
  then have "n * B \<le> length xs" by simp
  with Suc.IH have "concat (map (\<lambda>i. take B (drop (i * B) xs)) [0..<Suc n]) = take (n * B) xs @ take B (drop (n * B) xs)"
    by simp
  also have "\<dots> = take (n * B + B) xs" by (simp add: take_add)
  finally show ?case by (simp add: add.commute)
qed


lemma traverse_total: "(\<And>x. x \<in> set xs \<Longrightarrow> \<exists>y. f x = Inr y) \<Longrightarrow> \<exists>ys. traverse f xs = Inr ys"
proof (induction xs)
  case Nil then show ?case by simp
next
  case (Cons x xs)
  obtain y where y: "f x = Inr y" using Cons.prems[of x] by auto
  obtain ys where ys: "traverse f xs = Inr ys" using Cons by fastforce
  show ?case by (simp add: y ys)
qed

lemma set_py_slice: "set (py_slice xs a b) \<subseteq> set xs"
proof -
  have "set (take n (drop m xs)) \<subseteq> set xs" for n m
    by (meson set_take_subset set_drop_subset subset_trans)
  then show ?thesis by (simp add: py_slice_def Let_def)
qed

lemma take_drop_nth: "m + n \<le> length xs \<Longrightarrow> take n (drop m xs) = map (\<lambda>k. xs ! (m + k)) [0..<n]"
  by (rule nth_equalityI) auto

lemma nat_div_batches:
  assumes "0 < (b::int)"
  shows "int M div b = int (M div nat b)"
  using assms by (metis int_nat_eq less_le_not_le linorder_le_cases zdiv_int)

lemma emitted_indices_pos:
  assumes "0 < batch_size g"
  shows "emitted_indices g = Inr (map int [0..<length (image_list g) div nat (batch_size g)])"
  using assms by (simp add: emitted_indices_def generator_len_def nat_div_batches)

lemma emitted_pathnames:
  assumes B: "0 < batch_size g"
  shows "concat (map (batch_pathnames g) (map int [0..<length (image_list g) div nat (batch_size g)]))
           = take (length (image_list g) - length (image_list g) mod nat (batch_size g)) (image_list g)"
proof -
  define L where "L = image_list g"
  define b where "b = nat (batch_size g)"
  define n where "n = length L div b"
  have bs: "batch_size g = int b" using B by (simp add: b_def)
  have each: "batch_pathnames g (int i) = take b (drop (i * b) L)" if "i < n" for i
    using batch_pathnames_nat[OF bs] that by (simp add: n_def L_def)
  have m: "map (batch_pathnames g) (map int [0..<n]) = map (\<lambda>i. take b (drop (i * b) L)) [0..<n]"
    using each by (simp add: o_def)
  have "concat (map (batch_pathnames g) (map int [0..<n])) = take (n * b) L"
    unfolding m using concat_batches[of n b L] by (simp add: n_def)
  moreover have "n * b = length L - length L mod b"
    by (simp add: n_def minus_mod_eq_div_mult)
  ultimately show ?thesis
    unfolding n_def L_def b_def by simp
qed

section \<open>Properties of the enumerator's parts\<close>

lemma label_map_snoc:
  "length fs = length ns \<Longrightarrow>
   label_map_of (fs @ [f]) (ns @ [n]) = (label_map_of fs ns)(f \<mapsto> n)"
  by (simp add: label_map_of_def)

text \<open>The dictionary maps a folder name to the last position at which it stands.\<close>

lemma label_map_last_index:
  "label_map_of fs [0..<length fs] f = Some k \<longleftrightarrow>
     k < length fs \<and> fs ! k = f \<and> (\<forall>j. k < j \<and> j < length fs \<longrightarrow> fs ! j \<noteq> f)"
proof (induction fs arbitrary: k rule: rev_induct)
  case Nil
  show ?case by (simp add: label_map_of_def)
next
  case (snoc x xs)
  have eq: "label_map_of (xs @ [x]) [0..<length (xs @ [x])] = (label_map_of xs [0..<length xs])(x \<mapsto> length xs)"
    using label_map_snoc[of xs "[0..<length xs]" x "length xs"] by simp
  have len: "length (xs @ [x]) = Suc (length xs)" by simp
  show ?case
  proof (cases "f = x")
    case True
    have "(k = length xs) \<longleftrightarrow>
          (k < Suc (length xs) \<and> (xs @ [x]) ! k = x \<and> (\<forall>j. k < j \<and> j < Suc (length xs) \<longrightarrow> (xs @ [x]) ! j \<noteq> x))"
    proof
      assume "k = length xs" then show "k < Suc (length xs) \<and> (xs @ [x]) ! k = x \<and> (\<forall>j. k < j \<and> j < Suc (length xs) \<longrightarrow> (xs @ [x]) ! j \<noteq> x)"
        by auto
    next
      assume a: "k < Suc (length xs) \<and> (xs @ [x]) ! k = x \<and> (\<forall>j. k < j \<and> j < Suc (length xs) \<longrightarrow> (xs @ [x]) ! j \<noteq> x)"
      show "k = length xs"
      proof (rule ccontr)
        assume "k \<noteq> length xs"
        then have kl: "k < length xs" using a by simp
        from a have "\<forall>j. k < j \<and> j < Suc (length xs) \<longrightarrow> (xs @ [x]) ! j \<noteq> x" by blast
        then have "k < length xs \<and> length xs < Suc (length xs) \<longrightarrow> (xs @ [x]) ! length xs \<noteq> x"
          by (rule spec)
        with kl show False by simp
      qed
    qed
    moreover have "label_map_of (xs @ [x]) [0..<length (xs @ [x])] f = Some k \<longleftrightarrow> k = length xs"
      unfolding eq using True by auto
    ultimately show ?thesis unfolding len True by blast
  next
    case False
    have "(k < length xs \<and> xs ! k = f \<and> (\<forall>j. k < j \<and> j < length xs \<longrightarrow> xs ! j \<noteq> f)) \<longleftrightarrow>
          (k < Suc (length xs) \<and> (xs @ [x]) ! k = f \<and> (\<forall>j. k < j \<and> j < Suc (length xs) \<longrightarrow> (xs @ [x]) ! j \<noteq> f))"
      (is "?A \<longleftrightarrow> ?B")
    proof
      assume a: ?A
      have "(xs @ [x]) ! j \<noteq> f" if "k < j" "j < Suc (length xs)" for j
      proof (cases "j = length xs")
        case True then show ?thesis using False by simp
      next
        case False
        then have "j < length xs" using that by simp
        then show ?thesis using a that by (simp add: nth_append)
      qed
      then show ?B using a by (simp add: nth_append)
    next
      assume b: ?B
      have k: "k < length xs"
      proof (rule ccontr)
        assume "\<not> k < length xs"
        then have "k = length xs" using b by simp
        then show False using b False by simp
      qed
      have "xs ! j \<noteq> f" if "k < j" "j < length xs" for j
      proof -
        have "(xs @ [x]) ! j \<noteq> f" using b that by simp
        then show ?thesis using that by (simp add: nth_append)
      qed
      then show ?A using b k by (simp add: nth_append)
    qed
    moreover have "label_map_of (xs @ [x]) [0..<length (xs @ [x])] f = Some k \<longleftrightarrow>
        label_map_of xs [0..<length xs] f = Some k"
      unfolding eq using False by simp
    ultimately show ?thesis unfolding len using snoc.IH[of k] by blast
  qed
qed

lemma label_map_distinct:
  assumes "distinct fs" and "i < length fs"
  shows "label_map_of fs [0..<length fs] (fs ! i) = Some i"
proof -
  have "fs ! j \<noteq> fs ! i" if "i < j" "j < length fs" for j
    using assms that by (simp add: nth_eq_iff_index_eq)
  then show ?thesis using assms by (simp add: label_map_last_index)
qed

lemma label_map_defined:
  assumes "f \<in> set fs"
  shows "\<exists>k. label_map_of fs [0..<length fs] f = Some k"
proof -
  define S where "S = {j. j < length fs \<and> fs ! j = f}"
  have fin: "finite S" by (simp add: S_def)
  have ne: "S \<noteq> {}" using assms by (auto simp: S_def in_set_conv_nth)
  define k where "k = Max S"
  have kS: "k \<in> S" using fin ne by (simp add: k_def)
  have "fs ! j \<noteq> f" if "k < j" "j < length fs" for j
  proof
    assume "fs ! j = f"
    then have "j \<in> S" using that by (simp add: S_def)
    then have "j \<le> k" using fin by (simp add: k_def)
    then show False using that by simp
  qed
  then have "label_map_of fs [0..<length fs] f = Some k"
    using kS by (simp add: label_map_last_index S_def)
  then show ?thesis ..
qed




lemma folder_images_ok:
  assumes "listdir (path_join img_dir [folder]) = Inr images" and "label_map folder = Some l"
  shows "folder_images listdir img_dir label_map folder =
           Inr (map (\<lambda>image. (path_join img_dir [folder, image], l)) images)"
proof -
  have "traverse (\<lambda>image. case label_map folder of None \<Rightarrow> Inl KeyError
                 | Some label \<Rightarrow> Inr (path_join img_dir [folder, image], label)) images
        = Inr (map (\<lambda>image. (path_join img_dir [folder, image], l)) images)"
    by (rule traverse_map) (simp add: assms)
  then show ?thesis by (simp add: folder_images_def assms)
qed


lemma labeled_image_list_ok:
  assumes "\<And>f. f \<in> set fs \<Longrightarrow> listdir (path_join img_dir [f]) = Inr (imgs f)"
    and "\<And>f. f \<in> set fs \<Longrightarrow> label_map f = Some (lab f)"
  shows "labeled_image_list listdir img_dir label_map fs =
           Inr (concat (map (\<lambda>f. map (\<lambda>image. (path_join img_dir [f, image], lab f)) (imgs f)) fs))"
  using assms
proof (induction fs)
  case Nil
  show ?case by simp
next
  case (Cons f fs)
  have 1: "folder_images listdir img_dir label_map f =
             Inr (map (\<lambda>image. (path_join img_dir [f, image], lab f)) (imgs f))"
    by (rule folder_images_ok) (simp_all add: Cons.prems)
  have 2: "labeled_image_list listdir img_dir label_map fs =
           Inr (concat (map (\<lambda>f. map (\<lambda>image. (path_join img_dir [f, image], lab f)) (imgs f)) fs))"
    by (rule Cons.IH) (simp_all add: Cons.prems)
  show ?case by (simp add: 1 2)
qed




lemma create_image_list_rows:
  assumes root: "listdir img_dir = Inr entries"
    and d: "distinct entries"
    and sub: "\<And>f. f \<in> set entries \<Longrightarrow> listdir (path_join img_dir [f]) = Inr (imgs f)"
  shows "create_image_list listdir img_dir = Inr (zip_star (expected_rows img_dir (sort entries) imgs))"
proof -
  define fs where "fs = sort entries"
  define lm where "lm = label_map_of fs [0..<length fs]"
  have dfs: "distinct fs" and sfs: "set fs = set entries" using d by (simp_all add: fs_def)
  have lab: "lm f = Some (the (lm f))" if "f \<in> set fs" for f
    using label_map_defined[OF that] by (auto simp: lm_def)
  have "labeled_image_list listdir img_dir lm fs =
          Inr (concat (map (\<lambda>f. map (\<lambda>image. (path_join img_dir [f, image], the (lm f))) (imgs f)) fs))"
  proof (rule labeled_image_list_ok)
    fix f assume "f \<in> set fs"
    then show "listdir (path_join img_dir [f]) = Inr (imgs f)" using sub sfs by simp
  next
    fix f assume "f \<in> set fs"
    then show "lm f = Some (the (lm f))" by (rule lab)
  qed
  also have "map (\<lambda>f. map (\<lambda>image. (path_join img_dir [f, image], the (lm f))) (imgs f)) fs
           = map (\<lambda>i. map (\<lambda>image. (path_join img_dir [fs ! i, image], i)) (imgs (fs ! i))) [0..<length fs]"
  proof (rule nth_equalityI)
    show "length (map (\<lambda>f. map (\<lambda>image. (path_join img_dir [f, image], the (lm f))) (imgs f)) fs) =
          length (map (\<lambda>i. map (\<lambda>image. (path_join img_dir [fs ! i, image], i)) (imgs (fs ! i))) [0..<length fs])"
      by simp
  next
    fix i assume "i < length (map (\<lambda>f. map (\<lambda>image. (path_join img_dir [f, image], the (lm f))) (imgs f)) fs)"
    then have i: "i < length fs" by simp
    have "lm (fs ! i) = Some i" unfolding lm_def using dfs i by (rule label_map_distinct)
    then show "map (\<lambda>f. map (\<lambda>image. (path_join img_dir [f, image], the (lm f))) (imgs f)) fs ! i =
        map (\<lambda>i. map (\<lambda>image. (path_join img_dir [fs ! i, image], i)) (imgs (fs ! i))) [0..<length fs] ! i"
      using i by simp
  qed
  finally have "labeled_image_list listdir img_dir lm fs = Inr (expected_rows img_dir fs imgs)"
    by (simp add: expected_rows_def)
  then show ?thesis
    by (simp add: create_image_list_def root Let_def fs_def lm_def)
qed

lemma zip_star_lengths:
  "zip_star rows = [Paths paths, Labels labels] \<Longrightarrow> paths = map fst rows \<and> labels = map snd rows"
  by (auto simp: zip_star_def split: if_splits)

lemma expected_rows_labels: "snd ` set (expected_rows img_dir fs imgs) \<subseteq> {0..<length fs}"
  by (auto simp: expected_rows_def)


lemma aerial_sorted: "sort [''water'', ''forest''] = [''forest'', ''water'']"
  by simp

lemma aerial_rows:
  "zip_star (expected_rows ''aerial'' [''forest'', ''water''] aerial_images) =
     [Paths [''aerial/forest/f1.png'', ''aerial/forest/f2.png'', ''aerial/forest/f3.png'',
             ''aerial/forest/f4.png'', ''aerial/forest/f5.png'',
             ''aerial/water/w1.png'', ''aerial/water/w2.png'', ''aerial/water/w3.png''],
      Labels [0, 0, 0, 0, 0, 1, 1, 1]]"
  by (simp add: zip_star_def expected_rows_def upt_conv_Cons aerial_images_def path_join_def
      join_step_def)

lemma featurizer_extract_total:
  assumes ok: "\<And>p. p \<in> set imgs \<Longrightarrow> load p = Inr (h p)"
  shows "featurizer_extract load (map q) base_model imgs =
           Inr (map (\<lambda>p. base_model (q (h p))) (take (length imgs - length imgs mod 64) imgs))"
proof -
  define g where "g = ImageGenerator_init imgs (Some (map q)) 64"
  define n where "n = length imgs div 64"
  have g: "image_list g = imgs" "batch_size g = int 64" "preprocess_fn g = Some (map q)"
    by (simp_all add: g_def ImageGenerator_init_def)
  have pos: "0 < batch_size g" by (simp add: g)
  have idx: "emitted_indices g = Inr (map int [0..<n])"
    using emitted_indices_pos[OF pos] by (simp add: g n_def)
  have item: "getitem load g x = Inr (map (\<lambda>p. q (h p)) (take 64 (drop (nat x * 64) imgs)))"
    if "x \<in> set (map int [0..<n])" for x
  proof -
    from that obtain i where i: "x = int i" "i < n" by auto
    have p: "batch_pathnames g (int i) = take 64 (drop (i * 64) imgs)"
      using batch_pathnames_nat[OF g(2), of i] i(2) by (simp add: g n_def)
    have "set (take 64 (drop (i * 64) imgs)) \<subseteq> set imgs"
      by (meson set_take_subset set_drop_subset subset_trans)
    then have "traverse load (take 64 (drop (i * 64) imgs)) = Inr (map h (take 64 (drop (i * 64) imgs)))"
      by (intro traverse_map ok) auto
    then show ?thesis
      by (simp add: getitem_def load_images_def p i(1) g o_def)
  qed
  have "traverse (getitem load g) (map int [0..<n]) =
          Inr (map (\<lambda>x. map (\<lambda>p. q (h p)) (take 64 (drop (nat x * 64) imgs))) (map int [0..<n]))"
    using item by (rule traverse_map)
  then have b: "emitted_batches load g =
          Inr (map (\<lambda>i. map (\<lambda>p. q (h p)) (take 64 (drop (i * 64) imgs))) [0..<n])"
    by (simp add: emitted_batches_def idx o_def)
  have "concat (map (map base_model) (map (\<lambda>i. map (\<lambda>p. q (h p)) (take 64 (drop (i * 64) imgs))) [0..<n]))
        = map (\<lambda>p. base_model (q (h p))) (concat (map (\<lambda>i. take 64 (drop (i * 64) imgs)) [0..<n]))"
    by (simp add: map_concat o_def)
  also have "concat (map (\<lambda>i. take 64 (drop (i * 64) imgs)) [0..<n]) = take (n * 64) imgs"
    by (rule concat_batches) (simp add: n_def)
  also have "n * 64 = length imgs - length imgs mod 64"
    by (simp add: n_def minus_mod_eq_div_mult)
  finally show ?thesis
    by (simp add: featurizer_extract_def Let_def g_def[symmetric] b)
qed

lemma water_forest_sorted:
  "entries = [''water'', ''forest''] \<or> entries = [''forest'', ''water''] \<Longrightarrow>
   sort entries = [''forest'', ''water'']"
  by auto

lemma setup_dsvm_cases:
  "sdk_lookup sdk ''gpudsvm'' = Inr t \<Longrightarrow> setup_dsvm sdk = ([Printed (''Found existing DSVM: '' @ sdk_name sdk t)], Inr t)"
  "sdk_lookup sdk ''gpudsvm'' = Inl (OtherException msg) \<Longrightarrow> setup_dsvm sdk = ([], Inl (OtherException msg))"
  "sdk_lookup sdk ''gpudsvm'' = Inl ComputeTargetException \<Longrightarrow> created (setup_dsvm sdk)"
  by (simp_all add: setup_dsvm_def created_def Let_def split: sum.splits)

lemma setup_batchai_cases:
  "sdk_lookup sdk (ws_name @ ''gpucls'') = Inr t \<Longrightarrow>
     snd (setup_batchai ws_name sdk) = Inr t \<and> \<not> created (setup_batchai ws_name sdk)"
  "sdk_lookup sdk (ws_name @ ''gpucls'') = Inl (OtherException msg) \<Longrightarrow>
     setup_batchai ws_name sdk = ([], Inl (OtherException msg))"
  "sdk_lookup sdk (ws_name @ ''gpucls'') = Inl ComputeTargetException \<Longrightarrow>
     created (setup_batchai ws_name sdk)"
  by (simp_all add: setup_batchai_def created_def Let_def split: sum.splits)

lemma map_by_index: "map h fs = map (\<lambda>i. h (fs ! i)) [0..<length fs]"
  by (rule nth_equalityI) simp_all

lemma expected_rows_fst:
  "map fst (expected_rows img_dir fs imgs) =
     concat (map (\<lambda>f. map (\<lambda>image. path_join img_dir [f, image]) (imgs f)) fs)"
proof -
  have "map fst (expected_rows img_dir fs imgs) =
      concat (map (\<lambda>i. map (\<lambda>image. path_join img_dir [fs ! i, image]) (imgs (fs ! i))) [0..<length fs])"
    by (simp add: expected_rows_def map_concat o_def)
  also have "\<dots> = concat (map (\<lambda>f. map (\<lambda>image. path_join img_dir [f, image]) (imgs f)) fs)"
    using map_by_index[of "\<lambda>f. map (\<lambda>image. path_join img_dir [f, image]) (imgs f)" fs] by simp
  finally show ?thesis .
qed

lemma expected_rows_snd:
  "map snd (expected_rows img_dir fs imgs) =
     concat (map (\<lambda>i. replicate (length (imgs (fs ! i))) i) [0..<length fs])"
  by (simp add: expected_rows_def map_concat o_def map_replicate_const)

lemma expected_rows_empty:
  "(expected_rows img_dir fs imgs = []) = (\<forall>f \<in> set fs. imgs f = [])"
proof -
  have "(expected_rows img_dir fs imgs = []) = (\<forall>i < length fs. imgs (fs ! i) = [])"
    by (auto simp: expected_rows_def)
  also have "\<dots> = (\<forall>f \<in> set fs. imgs f = [])"
    by (metis in_set_conv_nth nth_mem)
  finally show ?thesis .
qed









section \<open>Properties of the grid\<close>

text \<open>
  For choice lists of sizes \<open>a\<close>, \<open>b\<close>, \<open>c\<close>, ... the grid has \<open>a * b * c * ...\<close> points, and
  they are all different when no choice list repeats a value.
\<close>

lemma grid_points_length:
  "length (grid_points space) = prod_list (map (\<lambda>(name, choices). length choices) space)"
proof (induction space)
  case Nil
  show ?case by simp
next
  case (Cons a space)
  obtain name choices where a: "a = (name, choices)" by (cases a)
  have "length (concat (map (\<lambda>v. map (\<lambda>point. (name, v) # point) (grid_points space)) choices))
        = length choices * length (grid_points space)"
    by (induction choices) simp_all
  then show ?case using Cons.IH by (simp add: a)
qed

lemma grid_points_distinct:
  "(\<And>name choices. (name, choices) \<in> set space \<Longrightarrow> distinct choices) \<Longrightarrow> distinct (grid_points space)"
proof (induction space)
  case Nil
  show ?case by simp
next
  case (Cons a space)
  obtain name choices where a: "a = (name, choices)" by (cases a)
  have d: "distinct choices" using Cons.prems[of name choices] a by simp
  have r: "distinct (grid_points space)"
  proof (rule Cons.IH)
    fix n cs assume "(n, cs) \<in> set space"
    then show "distinct cs" using Cons.prems[of n cs] by simp
  qed
  have "distinct (concat (map (\<lambda>v. map (\<lambda>point. (name, v) # point) (grid_points space)) cs))"
    if "distinct cs" for cs
    using that
  proof (induction cs)
    case Nil
    show ?case by simp
  next
    case (Cons c cs)
    have "distinct (map (\<lambda>point. (name, c) # point) (grid_points space))"
      using r by (simp add: distinct_map inj_on_def)
    moreover have "set (map (\<lambda>point. (name, c) # point) (grid_points space))
        \<inter> set (concat (map (\<lambda>v. map (\<lambda>point. (name, v) # point) (grid_points space)) cs)) = {}"
      using Cons.prems by auto
    ultimately show ?case using Cons by simp
  qed
  then show ?case using d by (simp add: a)
qed

section \<open>The batch extractor\<close>

text \<open>
  Claim C1. For an image list of length \<open>M\<close> and a batch size \<open>B > 0\<close>, the generator is
  asked for the batches of index \<open>0, ..., M div B - 1\<close>, so \<open>M div B\<close> batches are emitted
  (and they are emitted whenever every image of the list can be loaded); the paths these
  batches take from the list are, in order, its first \<open>M - M mod B\<close> entries, so the last
  \<open>M mod B\<close> images are never processed.
\<close>

theorem emitted_batch_count:
  assumes B: "0 < batch_size g"
  shows "emitted_indices g = Inr (map int [0..<length (image_list g) div nat (batch_size g)])
       \<and> concat (map (batch_pathnames g) (map int [0..<length (image_list g) div nat (batch_size g)]))
           = take (length (image_list g) - length (image_list g) mod nat (batch_size g)) (image_list g)
       \<and> (\<forall>bs. emitted_batches load g = Inr bs \<longrightarrow>
             length bs = length (image_list g) div nat (batch_size g))
       \<and> ((\<forall>p \<in> set (image_list g). \<exists>img. load p = Inr img) \<longrightarrow>
             (\<exists>bs. emitted_batches load g = Inr bs))"
proof -
  define n where "n = length (image_list g) div nat (batch_size g)"
  have idx: "emitted_indices g = Inr (map int [0..<n])"
    using emitted_indices_pos[OF B] by (simp add: n_def)
  have cat: "concat (map (batch_pathnames g) (map int [0..<n]))
      = take (length (image_list g) - length (image_list g) mod nat (batch_size g)) (image_list g)"
    using emitted_pathnames[OF B] by (simp add: n_def)
  have len: "length bs = n" if "emitted_batches load g = Inr bs" for bs
    using that traverse_length[of "getitem load g" "map int [0..<n]" bs]
    by (simp add: emitted_batches_def idx)
  have tot: "\<exists>bs. emitted_batches load g = Inr bs"
    if ok: "\<forall>p \<in> set (image_list g). \<exists>img. load p = Inr img"
  proof -
    have "\<exists>y. getitem load g i = Inr y" for i
    proof -
      have "set (batch_pathnames g i) \<subseteq> set (image_list g)"
        by (simp add: batch_pathnames_def set_py_slice)
      then have "\<exists>ys. traverse load (batch_pathnames g i) = Inr ys"
        using ok by (intro traverse_total) auto
      then show ?thesis
        by (auto simp: getitem_def load_images_def split: option.splits)
    qed
    then have "\<exists>bs. traverse (getitem load g) (map int [0..<n]) = Inr bs"
      by (intro traverse_total) auto
    then show ?thesis by (simp add: emitted_batches_def idx)
  qed
  show ?thesis
    using idx cat len tot unfolding n_def by blast
qed

theorem emitted_batch_count_witness:
  "0 < batch_size demo_generator
   \<and> emitted_indices demo_generator = Inr [0, 1]
   \<and> concat (map (batch_pathnames demo_generator) [0, 1]) = [''a'', ''b'', ''c'', ''d'', ''e'', ''f'']
   \<and> emitted_batches Inr demo_generator = Inr [[''a'', ''b'', ''c''], [''d'', ''e'', ''f'']]
   \<and> length [[''a'', ''b'', ''c''], [''d'', ''e'', ''f'']] = length (image_list demo_generator) div nat (batch_size demo_generator)"
proof -
  have pos: "0 < batch_size demo_generator"
    by (simp add: demo_generator_def ImageGenerator_init_def)
  have n: "length (image_list demo_generator) div nat (batch_size demo_generator) = 2"
    by (simp add: demo_generator_def ImageGenerator_init_def)
  have up: "[0..<2] = [0, Suc 0]" by (simp add: upt_conv_Cons)
  have ok: "\<forall>p \<in> set (image_list demo_generator). \<exists>img. (Inr :: string \<Rightarrow> py_error + string) p = Inr img"
    by simp
  note t = emitted_batch_count[OF pos, of Inr]
  from t have i: "emitted_indices demo_generator = Inr [0, 1]" by (simp add: n up)
  from t have c: "concat (map (batch_pathnames demo_generator) [0, 1]) = [''a'', ''b'', ''c'', ''d'', ''e'', ''f'']"
    by (simp add: n up demo_generator_def ImageGenerator_init_def)
  have e: "emitted_batches Inr demo_generator = Inr [[''a'', ''b'', ''c''], [''d'', ''e'', ''f'']]"
    by code_simp
  from t e have "length [[''a'', ''b'', ''c''], [''d'', ''e'', ''f'']] = length (image_list demo_generator) div nat (batch_size demo_generator)"
    by blast
  with pos i c e show ?thesis by blast
qed

text \<open>
  Claim C9. For a batch size \<open>B > 0\<close> and an index \<open>i\<close> with \<open>0 \<le> i < M div B\<close>, the batch
  of index \<open>i\<close> is built from the paths at the positions \<open>i * B, ..., i * B + B - 1\<close> of the
  list, in this order: these are loaded one by one and the preprocessing function, if
  there is one, is applied to the loaded images. The batch holds exactly \<open>B\<close> paths, and
  when they can be loaded exactly \<open>B\<close> images, the \<open>k\<close>-th of them loaded from the path at
  position \<open>i * B + k\<close>.
\<close>

theorem batch_contents:
  assumes B: "0 < batch_size g"
    and i0: "0 \<le> index"
    and i1: "index < int (length (image_list g)) div batch_size g"
  shows "batch_pathnames g index =
           map (\<lambda>k. image_list g ! (nat index * nat (batch_size g) + k)) [0..<nat (batch_size g)]
       \<and> length (batch_pathnames g index) = nat (batch_size g)
       \<and> getitem load g index =
           (case traverse load (map (\<lambda>k. image_list g ! (nat index * nat (batch_size g) + k))
                                   [0..<nat (batch_size g)]) of
              Inl e \<Rightarrow> Inl e
            | Inr images \<Rightarrow>
                (case preprocess_fn g of None \<Rightarrow> Inr images | Some f \<Rightarrow> Inr (f images)))
       \<and> (\<forall>images. traverse load (batch_pathnames g index) = Inr images \<longrightarrow>
             length images = nat (batch_size g)
             \<and> (\<forall>k < nat (batch_size g).
                   load (image_list g ! (nat index * nat (batch_size g) + k)) = Inr (images ! k)))"
proof -
  define L where "L = image_list g"
  define b where "b = nat (batch_size g)"
  define i where "i = nat index"
  have bs: "batch_size g = int b" using B by (simp add: b_def)
  have ii: "index = int i" using i0 by (simp add: i_def)
  have "int i < int (length L div b)"
    using i1 nat_div_batches[OF B, of "length L"] by (simp add: ii L_def b_def)
  then have lt: "i < length (image_list g) div b" by (simp add: L_def)
  have le: "i * b + b \<le> length L"
    using batch_bounds[of i "length L" b] lt by (simp add: L_def)
  have "batch_pathnames g index = take b (drop (i * b) L)"
    using batch_pathnames_nat[OF bs lt] by (simp add: ii L_def)
  also have "\<dots> = map (\<lambda>k. L ! (i * b + k)) [0..<b]"
    using le by (rule take_drop_nth)
  finally have p: "batch_pathnames g index = map (\<lambda>k. L ! (i * b + k)) [0..<b]" .
  then have len: "length (batch_pathnames g index) = b" by simp
  have gi: "getitem load g index =
      (case traverse load (map (\<lambda>k. L ! (i * b + k)) [0..<b]) of
         Inl e \<Rightarrow> Inl e
       | Inr images \<Rightarrow> (case preprocess_fn g of None \<Rightarrow> Inr images | Some f \<Rightarrow> Inr (f images)))"
    by (simp add: getitem_def load_images_def p)
  have ld: "length images = b \<and> (\<forall>k < b. load (L ! (i * b + k)) = Inr (images ! k))"
    if t: "traverse load (batch_pathnames g index) = Inr images" for images
  proof
    show "length images = b" using traverse_length[OF t] len by simp
    show "\<forall>k < b. load (L ! (i * b + k)) = Inr (images ! k)"
    proof (intro allI impI)
      fix k assume k: "k < b"
      then have "k < length (batch_pathnames g index)" using len by simp
      from traverse_Inr_elem[OF t this] show "load (L ! (i * b + k)) = Inr (images ! k)"
        using k by (simp add: p)
    qed
  qed
  show ?thesis
    using p len gi ld unfolding L_def b_def i_def by blast
qed

theorem batch_contents_witness:
  "0 < batch_size demo_generator \<and> (0::int) \<le> 1
   \<and> 1 < int (length (image_list demo_generator)) div batch_size demo_generator
   \<and> batch_pathnames demo_generator 1 = [''d'', ''e'', ''f'']
   \<and> length (batch_pathnames demo_generator 1) = 3
   \<and> getitem Inr demo_generator 1 = Inr [''d'', ''e'', ''f'']
   \<and> traverse (Inr :: string \<Rightarrow> py_error + string) (batch_pathnames demo_generator 1) = Inr [''d'', ''e'', ''f'']
   \<and> length [''d'', ''e'', ''f''] = nat (batch_size demo_generator)
   \<and> (Inr (image_list demo_generator ! (nat 1 * nat (batch_size demo_generator) + 2)) :: py_error + string)
       = Inr ([''d'', ''e'', ''f''] ! 2)"
proof -
  have pos: "0 < batch_size demo_generator"
    by (simp add: demo_generator_def ImageGenerator_init_def)
  have i1: "1 < int (length (image_list demo_generator)) div batch_size demo_generator"
    by (simp add: demo_generator_def ImageGenerator_init_def)
  have b: "nat (batch_size demo_generator) = 3"
    by (simp add: demo_generator_def ImageGenerator_init_def)
  have up: "[0..<3] = [0, 1, 2]" by (simp add: upt_conv_Cons)
  have L: "image_list demo_generator = [''a'', ''b'', ''c'', ''d'', ''e'', ''f'', ''g'']"
    and pf: "preprocess_fn demo_generator = None"
    by (simp_all add: demo_generator_def ImageGenerator_init_def)
  note t = batch_contents[OF pos _ i1, of Inr]
  from t have p: "batch_pathnames demo_generator 1 = [''d'', ''e'', ''f'']"
    by (simp add: b up L)
  from t have g: "getitem Inr demo_generator 1 = Inr [''d'', ''e'', ''f'']"
    by (simp add: b up L pf)
  have tr: "traverse (Inr :: string \<Rightarrow> py_error + string) (batch_pathnames demo_generator 1) = Inr [''d'', ''e'', ''f'']"
    by (simp add: p)
  from t tr have both: "length [''d'', ''e'', ''f''] = nat (batch_size demo_generator)
     \<and> (\<forall>k < nat (batch_size demo_generator).
           (Inr (image_list demo_generator ! (nat 1 * nat (batch_size demo_generator) + k)) :: py_error + string)
             = Inr ([''d'', ''e'', ''f''] ! k))"
    by simp
  have "2 < nat (batch_size demo_generator)" using b by simp
  with both have k2: "(Inr (image_list demo_generator ! (nat 1 * nat (batch_size demo_generator) + 2)) :: py_error + string)
       = Inr ([''d'', ''e'', ''f''] ! 2)"
    by blast
  from both have len: "length [''d'', ''e'', ''f''] = nat (batch_size demo_generator)" by blast
  have len3: "length (batch_pathnames demo_generator 1) = 3" by (simp add: p)
  have z: "(0::int) \<le> 1" by simp
  from pos z i1 p len3 g tr len k2 show ?thesis by blast
qed

section \<open>The image enumerator\<close>

text \<open>
  Claim C2. Let the root directory list \<open>N\<close> distinct names, each of them a directory
  whose listing is \<open>imgs f\<close>. Then the label map sends the \<open>i\<close>-th name in sorted order to
  \<open>i\<close>, for \<open>i = 0, ..., N - 1\<close>, so that a name is smaller than another exactly when its
  label is. When some folder holds an image, the enumerator returns two sequences: the
  paths of the images, folder by folder in the sorted order of the folder names, and
  the labels, \<open>i\<close> repeated once for each image of the \<open>i\<close>-th folder; the notebook's
  unpacking gives these two. The label sequence is as long as the path sequence, and
  every label is below \<open>N\<close>. When no folder holds an image, nothing is returned.
\<close>

theorem enumerator_labels:
  assumes root: "listdir img_dir = Inr entries"
    and d: "distinct entries"
    and sub: "\<forall>f \<in> set entries. listdir (path_join img_dir [f]) = Inr (imgs f)"
  shows "(\<forall>i < length entries.
            label_map_of (sort entries) [0..<length (sort entries)] (sort entries ! i) = Some i)
       \<and> (\<forall>f \<in> set entries. \<forall>g \<in> set entries.
            (f < g) = (the (label_map_of (sort entries) [0..<length (sort entries)] f)
                        < the (label_map_of (sort entries) [0..<length (sort entries)] g)))
       \<and> create_image_list listdir img_dir = Inr (zip_star (expected_rows img_dir (sort entries) imgs))
       \<and> (\<forall>paths labels. create_image_list listdir img_dir = Inr [Paths paths, Labels labels] \<longrightarrow>
             length labels = length paths \<and> set labels \<subseteq> {0..<length entries})
       \<and> ((\<exists>f \<in> set entries. imgs f \<noteq> []) \<longrightarrow>
             create_image_list listdir img_dir =
               Inr [Paths (concat (map (\<lambda>f. map (\<lambda>image. path_join img_dir [f, image]) (imgs f))
                                       (sort entries))),
                    Labels (concat (map (\<lambda>i. replicate (length (imgs (sort entries ! i))) i)
                                        [0..<length entries]))]
           \<and> enumerate_images listdir img_dir =
               Inr (Paths (concat (map (\<lambda>f. map (\<lambda>image. path_join img_dir [f, image]) (imgs f))
                                       (sort entries))),
                    Labels (concat (map (\<lambda>i. replicate (length (imgs (sort entries ! i))) i)
                                        [0..<length entries]))))
       \<and> ((\<forall>f \<in> set entries. imgs f = []) \<longrightarrow> create_image_list listdir img_dir = Inr [])
       \<and> length (concat (map (\<lambda>i. replicate (length (imgs (sort entries ! i))) i) [0..<length entries]))
           = length (concat (map (\<lambda>f. map (\<lambda>image. path_join img_dir [f, image]) (imgs f))
                                 (sort entries)))"
proof -
  define fs where "fs = sort entries"
  define lm where "lm = label_map_of fs [0..<length fs]"
  define rows where "rows = expected_rows img_dir fs imgs"
  define P where "P = concat (map (\<lambda>f. map (\<lambda>image. path_join img_dir [f, image]) (imgs f)) fs)"
  define Lb where "Lb = concat (map (\<lambda>i. replicate (length (imgs (fs ! i))) i) [0..<length fs])"
  have dfs: "distinct fs" and sfs: "set fs = set entries" and lfs: "length fs = length entries"
    and srt: "sorted fs"
    using d by (simp_all add: fs_def)
  have idx: "lm (fs ! i) = Some i" if "i < length fs" for i
    unfolding lm_def using dfs that by (rule label_map_distinct)
  have mono: "(f < g) = (the (lm f) < the (lm g))" if f: "f \<in> set fs" and g: "g \<in> set fs" for f g
  proof -
    obtain i where i: "i < length fs" "fs ! i = f" using f by (auto simp: in_set_conv_nth)
    obtain j where j: "j < length fs" "fs ! j = g" using g by (auto simp: in_set_conv_nth)
    have st: "sorted_wrt (<) fs" using srt dfs by (simp add: strict_sorted_iff)
    have "(fs ! i < fs ! j) = (i < j)"
    proof
      assume a: "fs ! i < fs ! j"
      show "i < j"
      proof (rule ccontr)
        assume "\<not> i < j"
        then have "j \<le> i" by simp
        with srt have "fs ! j \<le> fs ! i" using i(1) by (rule sorted_nth_mono)
        with a show False by simp
      qed
    next
      assume "i < j"
      with st show "fs ! i < fs ! j" using j(1) by (rule sorted_wrt_nth_less)
    qed
    then show ?thesis using idx[OF i(1)] idx[OF j(1)] i j by simp
  qed
  have res: "create_image_list listdir img_dir = Inr (zip_star rows)"
    unfolding rows_def fs_def using root d sub by (intro create_image_list_rows) auto
  have fstr: "map fst rows = P" unfolding rows_def P_def by (rule expected_rows_fst)
  have sndr: "map snd rows = Lb" unfolding rows_def Lb_def by (rule expected_rows_snd)
  have emp: "(rows = []) = (\<forall>f \<in> set fs. imgs f = [])"
    unfolding rows_def by (rule expected_rows_empty)
  have cols: "length labels = length paths \<and> set labels \<subseteq> {0..<length fs}"
    if "create_image_list listdir img_dir = Inr [Paths paths, Labels labels]" for paths labels
  proof -
    from that res have "zip_star rows = [Paths paths, Labels labels]"
      by simp
    then have "paths = map fst rows \<and> labels = map snd rows"
      by (rule zip_star_lengths)
    then show ?thesis using expected_rows_labels[of img_dir fs imgs] by (simp add: rows_def)
  qed
  have some: "create_image_list listdir img_dir = Inr [Paths P, Labels Lb]
        \<and> enumerate_images listdir img_dir = Inr (Paths P, Labels Lb)"
    if "\<exists>f \<in> set fs. imgs f \<noteq> []"
  proof -
    from that emp have "rows \<noteq> []" by blast
    then have "zip_star rows = [Paths P, Labels Lb]" by (simp add: zip_star_def fstr sndr)
    then show ?thesis by (simp add: res enumerate_images_def)
  qed
  have none: "create_image_list listdir img_dir = Inr []" if "\<forall>f \<in> set fs. imgs f = []"
  proof -
    from that emp have "rows = []" by blast
    then show ?thesis by (simp add: res zip_star_def)
  qed
  have len: "length Lb = length P"
  proof -
    have "length (map snd rows) = length (map fst rows)" by simp
    then show ?thesis unfolding fstr sndr .
  qed
  show ?thesis
    using idx mono res cols some none len
    unfolding lm_def rows_def P_def Lb_def fs_def[symmetric] sfs[symmetric] lfs[symmetric]
    by blast
qed

theorem enumerator_labels_witness:
  "aerial_listdir ''aerial'' = Inr [''water'', ''forest'']
   \<and> distinct [''water'', ''forest'']
   \<and> aerial_listdir (path_join ''aerial'' [''water'']) = Inr (aerial_images ''water'')
   \<and> aerial_listdir (path_join ''aerial'' [''forest'']) = Inr (aerial_images ''forest'')
   \<and> label_map_of [''forest'', ''water''] [0..<2] ''forest'' = Some 0
   \<and> label_map_of [''forest'', ''water''] [0..<2] ''water'' = Some 1
   \<and> ''forest'' < ''water''
   \<and> the (label_map_of [''forest'', ''water''] [0..<2] ''forest'')
       < the (label_map_of [''forest'', ''water''] [0..<2] ''water'')
   \<and> aerial_images ''water'' \<noteq> []
   \<and> create_image_list aerial_listdir ''aerial'' =
       Inr [Paths [''aerial/forest/f1.png'', ''aerial/forest/f2.png'', ''aerial/forest/f3.png'',
                   ''aerial/forest/f4.png'', ''aerial/forest/f5.png'',
                   ''aerial/water/w1.png'', ''aerial/water/w2.png'', ''aerial/water/w3.png''],
            Labels [0, 0, 0, 0, 0, 1, 1, 1]]
   \<and> enumerate_images aerial_listdir ''aerial'' =
       Inr (Paths [''aerial/forest/f1.png'', ''aerial/forest/f2.png'', ''aerial/forest/f3.png'',
                   ''aerial/forest/f4.png'', ''aerial/forest/f5.png'',
                   ''aerial/water/w1.png'', ''aerial/water/w2.png'', ''aerial/water/w3.png''],
            Labels [0, 0, 0, 0, 0, 1, 1, 1])
   \<and> length [0, 0, 0, 0, 0, 1, 1, 1 :: nat] =
       length [''aerial/forest/f1.png'', ''aerial/forest/f2.png'', ''aerial/forest/f3.png'',
               ''aerial/forest/f4.png'', ''aerial/forest/f5.png'',
               ''aerial/water/w1.png'', ''aerial/water/w2.png'', ''aerial/water/w3.png'']
   \<and> set [0, 0, 0, 0, 0, 1, 1, 1 :: nat] \<subseteq> {0..<length [''water'', ''forest'']}
   \<and> bare_listdir ''aerial'' = Inr [''water'', ''forest'']
   \<and> bare_listdir (path_join ''aerial'' [''water'']) = Inr []
   \<and> bare_listdir (path_join ''aerial'' [''forest'']) = Inr []
   \<and> create_image_list bare_listdir ''aerial'' = Inr []"
proof -
  have root: "aerial_listdir ''aerial'' = Inr [''water'', ''forest'']"
    by (simp add: aerial_listdir_def)
  have d: "distinct [''water'', ''forest'']" by simp
  have w: "aerial_listdir (path_join ''aerial'' [''water'']) = Inr (aerial_images ''water'')"
    and f: "aerial_listdir (path_join ''aerial'' [''forest'']) = Inr (aerial_images ''forest'')"
    by (simp_all add: aerial_listdir_def aerial_images_def path_join_def join_step_def)
  have sub: "\<forall>f \<in> set [''water'', ''forest''].
      aerial_listdir (path_join ''aerial'' [f]) = Inr (aerial_images f)"
    using w f by simp
  have len2: "length (sort [''water'', ''forest'']) = 2" by simp
  note t = enumerator_labels[OF root d sub]
  from t have idx: "\<forall>i < length [''water'', ''forest''].
       label_map_of (sort [''water'', ''forest'']) [0..<length (sort [''water'', ''forest''])]
         (sort [''water'', ''forest''] ! i) = Some i" by blast
  have l0: "label_map_of [''forest'', ''water''] [0..<2] ''forest'' = Some 0"
  proof -
    from idx have "0 < length [''water'', ''forest''] \<longrightarrow>
       label_map_of (sort [''water'', ''forest'']) [0..<length (sort [''water'', ''forest''])]
         (sort [''water'', ''forest''] ! 0) = Some 0" by (rule spec)
    then show ?thesis unfolding len2 aerial_sorted by (simp add: upt_conv_Cons)
  qed
  have l1: "label_map_of [''forest'', ''water''] [0..<2] ''water'' = Some 1"
  proof -
    from idx have "1 < length [''water'', ''forest''] \<longrightarrow>
       label_map_of (sort [''water'', ''forest'']) [0..<length (sort [''water'', ''forest''])]
         (sort [''water'', ''forest''] ! 1) = Some 1" by (rule spec)
    then show ?thesis unfolding len2 aerial_sorted by (simp add: upt_conv_Cons)
  qed
  have lt: "''forest'' < ''water''" by simp
  from t have "\<forall>f \<in> set [''water'', ''forest'']. \<forall>g \<in> set [''water'', ''forest''].
      (f < g) = (the (label_map_of (sort [''water'', ''forest'']) [0..<length (sort [''water'', ''forest''])] f)
                  < the (label_map_of (sort [''water'', ''forest'']) [0..<length (sort [''water'', ''forest''])] g))"
    by blast
  then have "(''forest'' < ''water'') =
      (the (label_map_of (sort [''water'', ''forest'']) [0..<length (sort [''water'', ''forest''])] ''forest'')
        < the (label_map_of (sort [''water'', ''forest'']) [0..<length (sort [''water'', ''forest''])] ''water''))"
    by simp
  with lt have mono: "the (label_map_of [''forest'', ''water''] [0..<2] ''forest'')
       < the (label_map_of [''forest'', ''water''] [0..<2] ''water'')"
    unfolding aerial_sorted by (simp add: numeral_2_eq_2)
  have ne: "aerial_images ''water'' \<noteq> []" by (simp add: aerial_images_def)
  then have ex: "\<exists>f \<in> set [''water'', ''forest'']. aerial_images f \<noteq> []" by simp
  have up: "[0..<2] = [0, Suc 0]" by (simp add: upt_conv_Cons)
  have P: "concat (map (\<lambda>f. map (\<lambda>image. path_join ''aerial'' [f, image]) (aerial_images f))
                        [''forest'', ''water'']) =
      [''aerial/forest/f1.png'', ''aerial/forest/f2.png'', ''aerial/forest/f3.png'',
       ''aerial/forest/f4.png'', ''aerial/forest/f5.png'',
       ''aerial/water/w1.png'', ''aerial/water/w2.png'', ''aerial/water/w3.png'']"
    by (simp add: aerial_images_def path_join_def join_step_def)
  have Lb: "concat (map (\<lambda>i. replicate (length (aerial_images ([''forest'', ''water''] ! i))) i)
                        [0..<length [''water'', ''forest'']]) = [0, 0, 0, 0, 0, 1, 1, 1]"
    by (simp add: aerial_images_def up eval_nat_numeral)
  from t ex have both:
    "create_image_list aerial_listdir ''aerial'' =
       Inr [Paths (concat (map (\<lambda>f. map (\<lambda>image. path_join ''aerial'' [f, image]) (aerial_images f))
                               (sort [''water'', ''forest'']))),
            Labels (concat (map (\<lambda>i. replicate (length (aerial_images (sort [''water'', ''forest''] ! i))) i)
                                [0..<length [''water'', ''forest'']]))]
     \<and> enumerate_images aerial_listdir ''aerial'' =
       Inr (Paths (concat (map (\<lambda>f. map (\<lambda>image. path_join ''aerial'' [f, image]) (aerial_images f))
                               (sort [''water'', ''forest'']))),
            Labels (concat (map (\<lambda>i. replicate (length (aerial_images (sort [''water'', ''forest''] ! i))) i)
                                [0..<length [''water'', ''forest'']])))"
    by blast
  then have c: "create_image_list aerial_listdir ''aerial'' =
       Inr [Paths [''aerial/forest/f1.png'', ''aerial/forest/f2.png'', ''aerial/forest/f3.png'',
                   ''aerial/forest/f4.png'', ''aerial/forest/f5.png'',
                   ''aerial/water/w1.png'', ''aerial/water/w2.png'', ''aerial/water/w3.png''],
            Labels [0, 0, 0, 0, 0, 1, 1, 1]]"
    and e: "enumerate_images aerial_listdir ''aerial'' =
       Inr (Paths [''aerial/forest/f1.png'', ''aerial/forest/f2.png'', ''aerial/forest/f3.png'',
                   ''aerial/forest/f4.png'', ''aerial/forest/f5.png'',
                   ''aerial/water/w1.png'', ''aerial/water/w2.png'', ''aerial/water/w3.png''],
            Labels [0, 0, 0, 0, 0, 1, 1, 1])"
    unfolding aerial_sorted P Lb by blast+
  from t c have cols: "length [0, 0, 0, 0, 0, 1, 1, 1 :: nat] =
       length [''aerial/forest/f1.png'', ''aerial/forest/f2.png'', ''aerial/forest/f3.png'',
               ''aerial/forest/f4.png'', ''aerial/forest/f5.png'',
               ''aerial/water/w1.png'', ''aerial/water/w2.png'', ''aerial/water/w3.png'']
     \<and> set [0, 0, 0, 0, 0, 1, 1, 1 :: nat] \<subseteq> {0..<length [''water'', ''forest'']}"
    by blast
  have broot: "bare_listdir ''aerial'' = Inr [''water'', ''forest'']"
    by (simp add: bare_listdir_def)
  have bw: "bare_listdir (path_join ''aerial'' [''water'']) = Inr []"
    and bf: "bare_listdir (path_join ''aerial'' [''forest'']) = Inr []"
    by (simp_all add: bare_listdir_def path_join_def join_step_def)
  have bsub: "\<forall>f \<in> set [''water'', ''forest''].
      bare_listdir (path_join ''aerial'' [f]) = Inr ((\<lambda>f. []) f)"
    using bw bf by simp
  have ball: "\<forall>f \<in> set [''water'', ''forest'']. (\<lambda>f. [] :: string list) f = []" by simp
  note tb = enumerator_labels[OF broot d bsub]
  from tb ball have be: "create_image_list bare_listdir ''aerial'' = Inr []" by blast
  from root d w f l0 l1 lt mono ne c e cols broot bw bf be show ?thesis by blast
qed

text \<open>
  Claim C5, as amended. For a root directory with no entries the enumerator does not
  fail, but what it returns is empty: it holds no sequence at all, rather than two
  empty sequences, and unpacking it into the image paths and the labels, as the
  notebook does, raises \<open>ValueError\<close>.
\<close>

theorem empty_directory:
  assumes "listdir img_dir = Inr []"
  shows "create_image_list listdir img_dir = Inr []
       \<and> enumerate_images listdir img_dir = Inl ValueError"
  using assms by (simp add: enumerate_images_def create_image_list_def zip_star_def)

theorem empty_directory_witness:
  "empty_listdir ''images'' = Inr []
   \<and> create_image_list empty_listdir ''images'' = Inr []
   \<and> enumerate_images empty_listdir ''images'' = Inl ValueError"
proof -
  have h: "empty_listdir ''images'' = Inr []" by (simp add: empty_listdir_def)
  from empty_directory[of empty_listdir "''images''", OF h] h show ?thesis by simp
qed

text \<open>The claim as stated fails on the empty directory: two empty sequences are not returned.\<close>

theorem empty_directory_counterexample:
  "create_image_list empty_listdir ''images'' \<noteq> Inr [Paths [], Labels []]"
  by (simp add: create_image_list_def empty_listdir_def zip_star_def)




text \<open>
  Claim C6, as amended. For a directory with the classes water (3 images) and forest
  (5 images), in whichever order the system lists them, the labels are forest 0 and
  water 1, since \<open>forest\<close> sorts before \<open>water\<close>; the enumerator returns the five forest
  images and then the three water images, 8 in all, and with batch size 4 the batch
  extractor is asked for the batches 0 and 1, which together take all 8 paths: 2
  batches, no image dropped.
\<close>

theorem water_forest_scenario:
  assumes root: "listdir img_dir = Inr entries"
    and ent: "entries = [''water'', ''forest''] \<or> entries = [''forest'', ''water'']"
    and w: "listdir (path_join img_dir [''water'']) = Inr ws" and lw: "length ws = 3"
    and f: "listdir (path_join img_dir [''forest'']) = Inr fs" and lf: "length fs = 5"
  shows "label_map_of (sort entries) [0..<length (sort entries)] ''forest'' = Some 0
       \<and> label_map_of (sort entries) [0..<length (sort entries)] ''water'' = Some 1
       \<and> (\<exists>paths. enumerate_images listdir img_dir = Inr (Paths paths, Labels [0, 0, 0, 0, 0, 1, 1, 1])
             \<and> paths = map (\<lambda>image. path_join img_dir [''forest'', image]) fs
                       @ map (\<lambda>image. path_join img_dir [''water'', image]) ws
             \<and> length paths = 8
             \<and> emitted_indices (ImageGenerator_init paths pf 4) = Inr [0, 1]
             \<and> concat (map (batch_pathnames (ImageGenerator_init paths pf 4)) [0, 1]) = paths)"
proof -
  define imgs where "imgs = (\<lambda>d. if d = ''water'' then ws else fs)"
  define paths where "paths = map (\<lambda>image. path_join img_dir [''forest'', image]) fs
                       @ map (\<lambda>image. path_join img_dir [''water'', image]) ws"
  have srt: "sort entries = [''forest'', ''water'']" using ent by (rule water_forest_sorted)
  have d: "distinct entries" using ent by auto
  have up: "[0..<2] = [0, Suc 0]" by (simp add: upt_conv_Cons)
  have l0: "label_map_of (sort entries) [0..<length (sort entries)] ''forest'' = Some 0"
    and l1: "label_map_of (sort entries) [0..<length (sort entries)] ''water'' = Some 1"
    by (simp_all add: srt label_map_of_def up)
  have sub: "listdir (path_join img_dir [d]) = Inr (imgs d)" if "d \<in> set entries" for d
    using that ent w f by (auto simp: imgs_def)
  have c: "create_image_list listdir img_dir = Inr (zip_star (expected_rows img_dir (sort entries) imgs))"
    using root d sub by (rule create_image_list_rows)
  have r5: "replicate 5 (0::nat) = [0, 0, 0, 0, 0]" and r3: "replicate 3 (Suc 0) = [1, 1, 1]"
    by (simp_all add: eval_nat_numeral)
  have rows: "expected_rows img_dir [''forest'', ''water''] imgs =
      map (\<lambda>image. (path_join img_dir [''forest'', image], 0)) fs
      @ map (\<lambda>image. (path_join img_dir [''water'', image], 1)) ws"
    by (simp add: expected_rows_def up imgs_def)
  have ne: "fs \<noteq> []" using lf by auto
  have labs: "map snd (expected_rows img_dir [''forest'', ''water''] imgs) = [0, 0, 0, 0, 0, 1, 1, 1]"
    by (simp add: rows o_def map_replicate_const lf lw r5 r3)
  have pths: "map fst (expected_rows img_dir [''forest'', ''water''] imgs) = paths"
    by (simp add: rows o_def paths_def)
  have z: "zip_star (expected_rows img_dir [''forest'', ''water''] imgs) = [Paths paths, Labels [0, 0, 0, 0, 0, 1, 1, 1]]"
    using ne by (simp add: zip_star_def labs pths) (simp add: rows)
  have e: "enumerate_images listdir img_dir = Inr (Paths paths, Labels [0, 0, 0, 0, 0, 1, 1, 1])"
    by (simp add: enumerate_images_def c srt z)
  have len: "length paths = 8" by (simp add: paths_def lf lw)
  define g :: "'a ImageGenerator" where "g = ImageGenerator_init paths pf 4"
  have g: "image_list g = paths" "batch_size g = 4" by (simp_all add: g_def ImageGenerator_init_def)
  have pos: "0 < batch_size g" by (simp add: g)
  have n: "length (image_list g) div nat (batch_size g) = 2" by (simp add: g len)
  have i: "emitted_indices g = Inr [0, 1]"
    using emitted_indices_pos[OF pos] by (simp add: n up)
  have cc: "concat (map (batch_pathnames g) [0, 1]) = paths"
    using emitted_pathnames[OF pos] by (simp add: n up g len)
  show ?thesis
    using l0 l1 e len i cc unfolding g_def paths_def by blast
qed

theorem water_forest_scenario_witness:
  "aerial_listdir ''aerial'' = Inr [''water'', ''forest'']
   \<and> aerial_listdir (path_join ''aerial'' [''water'']) = Inr [''w1.png'', ''w2.png'', ''w3.png'']
   \<and> length [''w1.png'', ''w2.png'', ''w3.png''] = 3
   \<and> aerial_listdir (path_join ''aerial'' [''forest'']) = Inr [''f1.png'', ''f2.png'', ''f3.png'', ''f4.png'', ''f5.png'']
   \<and> length [''f1.png'', ''f2.png'', ''f3.png'', ''f4.png'', ''f5.png''] = 5
   \<and> label_map_of (sort [''water'', ''forest'']) [0..<length (sort [''water'', ''forest''])] ''forest'' = Some 0
   \<and> label_map_of (sort [''water'', ''forest'']) [0..<length (sort [''water'', ''forest''])] ''water'' = Some 1
   \<and> enumerate_images aerial_listdir ''aerial'' =
       Inr (Paths [''aerial/forest/f1.png'', ''aerial/forest/f2.png'', ''aerial/forest/f3.png'',
                   ''aerial/forest/f4.png'', ''aerial/forest/f5.png'',
                   ''aerial/water/w1.png'', ''aerial/water/w2.png'', ''aerial/water/w3.png''],
            Labels [0, 0, 0, 0, 0, 1, 1, 1])
   \<and> emitted_indices (ImageGenerator_init
          [''aerial/forest/f1.png'', ''aerial/forest/f2.png'', ''aerial/forest/f3.png'',
           ''aerial/forest/f4.png'', ''aerial/forest/f5.png'',
           ''aerial/water/w1.png'', ''aerial/water/w2.png'', ''aerial/water/w3.png'']
          (None :: (string list \<Rightarrow> string list) option) 4) = Inr [0, 1]
   \<and> concat (map (batch_pathnames (ImageGenerator_init
          [''aerial/forest/f1.png'', ''aerial/forest/f2.png'', ''aerial/forest/f3.png'',
           ''aerial/forest/f4.png'', ''aerial/forest/f5.png'',
           ''aerial/water/w1.png'', ''aerial/water/w2.png'', ''aerial/water/w3.png'']
          (None :: (string list \<Rightarrow> string list) option) 4)) [0, 1]) =
         [''aerial/forest/f1.png'', ''aerial/forest/f2.png'', ''aerial/forest/f3.png'',
          ''aerial/forest/f4.png'', ''aerial/forest/f5.png'',
          ''aerial/water/w1.png'', ''aerial/water/w2.png'', ''aerial/water/w3.png'']"
proof -
  have root: "aerial_listdir ''aerial'' = Inr [''water'', ''forest'']"
    by (simp add: aerial_listdir_def)
  have ent: "[''water'', ''forest''] = [''water'', ''forest''] \<or> [''water'', ''forest''] = [''forest'', ''water'']"
    by simp
  have w: "aerial_listdir (path_join ''aerial'' [''water'']) = Inr [''w1.png'', ''w2.png'', ''w3.png'']"
    and f: "aerial_listdir (path_join ''aerial'' [''forest'']) = Inr [''f1.png'', ''f2.png'', ''f3.png'', ''f4.png'', ''f5.png'']"
    by (simp_all add: aerial_listdir_def path_join_def join_step_def)
  have lw: "length [''w1.png'', ''w2.png'', ''w3.png''] = 3"
    and lf: "length [''f1.png'', ''f2.png'', ''f3.png'', ''f4.png'', ''f5.png''] = 5"
    by simp_all
  note t = water_forest_scenario[OF root ent w lw f lf,
      of "None :: (string list \<Rightarrow> string list) option"]
  from t have l: "label_map_of (sort [''water'', ''forest'']) [0..<length (sort [''water'', ''forest''])] ''forest'' = Some 0"
    "label_map_of (sort [''water'', ''forest'']) [0..<length (sort [''water'', ''forest''])] ''water'' = Some 1"
    by blast+
  from t obtain paths where
    e0: "enumerate_images aerial_listdir ''aerial'' = Inr (Paths paths, Labels [0, 0, 0, 0, 0, 1, 1, 1])"
    and p0: "paths = map (\<lambda>image. path_join ''aerial'' [''forest'', image]) [''f1.png'', ''f2.png'', ''f3.png'', ''f4.png'', ''f5.png'']
                  @ map (\<lambda>image. path_join ''aerial'' [''water'', image]) [''w1.png'', ''w2.png'', ''w3.png'']"
    and i0: "emitted_indices (ImageGenerator_init paths (None :: (string list \<Rightarrow> string list) option) 4) = Inr [0, 1]"
    and c0: "concat (map (batch_pathnames (ImageGenerator_init paths (None :: (string list \<Rightarrow> string list) option) 4)) [0, 1]) = paths"
    by blast
  have p: "paths = [''aerial/forest/f1.png'', ''aerial/forest/f2.png'', ''aerial/forest/f3.png'',
                   ''aerial/forest/f4.png'', ''aerial/forest/f5.png'',
                   ''aerial/water/w1.png'', ''aerial/water/w2.png'', ''aerial/water/w3.png'']"
    unfolding p0 by (simp add: path_join_def join_step_def)
  from root w lw f lf l e0 i0 c0 show ?thesis unfolding p by blast
qed

text \<open>The claim as stated fails on this directory: water is given the label 1, not 0.\<close>

theorem water_forest_scenario_counterexample:
  "create_image_list aerial_listdir ''aerial'' =
       Inr [Paths [''aerial/forest/f1.png'', ''aerial/forest/f2.png'', ''aerial/forest/f3.png'',
                   ''aerial/forest/f4.png'', ''aerial/forest/f5.png'',
                   ''aerial/water/w1.png'', ''aerial/water/w2.png'', ''aerial/water/w3.png''],
            Labels [0, 0, 0, 0, 0, 1, 1, 1]]
   \<and> \<not> (label_map_of (sort [''water'', ''forest'']) [0..<2] ''water'' = Some 0
          \<and> label_map_of (sort [''water'', ''forest'']) [0..<2] ''forest'' = Some 1)"
proof -
  have "create_image_list aerial_listdir ''aerial'' =
       Inr [Paths [''aerial/forest/f1.png'', ''aerial/forest/f2.png'', ''aerial/forest/f3.png'',
                   ''aerial/forest/f4.png'', ''aerial/forest/f5.png'',
                   ''aerial/water/w1.png'', ''aerial/water/w2.png'', ''aerial/water/w3.png''],
            Labels [0, 0, 0, 0, 0, 1, 1, 1]]"
    by code_simp
  moreover have "label_map_of (sort [''water'', ''forest'']) [0..<2] ''water'' = Some 1"
    by code_simp
  ultimately show ?thesis by simp
qed

section \<open>The dataset preparation cell\<close>

text \<open>
  Claim C3 asks that each validation feature vector be paired with the label of its own
  image. The cell instead takes the validation labels from the front of the (already
  cut) training labels. On a split of 427 images into 363 training images, the first
  300 of class 0, and 64 validation images, the first 11 of class 1, the validation
  labels the cell produces are 64 zeros, which are not the labels of the validation
  images.
\<close>

theorem validation_labels_from_training:
  "prepare_datasets Inr id id
     (map (sample_path ''train'') [0..<363]) (map (sample_path ''valid'') [0..<64])
     (replicate 300 0 @ replicate 63 1) (replicate 11 1 @ replicate 53 0)
   = Inr (map (sample_path ''train'') [0..<320], map (sample_path ''valid'') [0..<64],
          replicate 300 0 @ replicate 20 1, replicate 64 0)
   \<and> replicate 64 (0::nat) \<noteq> replicate 11 1 @ replicate 53 0"
proof -
  have id: "(id :: string list \<Rightarrow> string list) = map id" by simp
  have t: "featurizer_extract Inr id id (map (sample_path ''train'') [0..<363])
             = Inr (map (sample_path ''train'') [0..<320])"
    unfolding id
    using featurizer_extract_total[of "map (sample_path ''train'') [0..<363]" Inr id id id]
    by (simp add: take_map)
  have v: "featurizer_extract Inr id id (map (sample_path ''valid'') [0..<64])
             = Inr (map (sample_path ''valid'') [0..<64])"
    unfolding id
    using featurizer_extract_total[of "map (sample_path ''valid'') [0..<64]" Inr id id id]
    by simp
  have 1: "prepare_datasets Inr id id
     (map (sample_path ''train'') [0..<363]) (map (sample_path ''valid'') [0..<64])
     (replicate 300 0 @ replicate 63 1) (replicate 11 1 @ replicate 53 0)
   = Inr (map (sample_path ''train'') [0..<320], map (sample_path ''valid'') [0..<64],
          replicate 300 0 @ replicate 20 1, replicate 64 0)"
    by (simp add: prepare_datasets_def t v py_slice_def slice_index_def Let_def replicate_add[symmetric])
  have "replicate 64 (0::nat) ! 0 \<noteq> (replicate 11 1 @ replicate 53 0) ! 0"
    by (simp add: nth_append)
  then have 2: "replicate 64 (0::nat) \<noteq> replicate 11 1 @ replicate 53 0"
    by metis
  from 1 2 show ?thesis ..
qed

section \<open>The command line flags\<close>

text \<open>
  Claim C7. The script defines exactly eight flags, in this order: \<open>batch_size\<close> (integer,
  default 32), \<open>epochs\<close> (integer, default 10), \<open>units\<close> (integer, default 512), \<open>l1\<close>
  (float, default 0.01), \<open>l2\<close> (float, default 0.01), \<open>data_folder\<close> (string, default
  \<open>./bottleneck\<close>), \<open>train_file_name\<close> and \<open>valid_file_name\<close> (strings, with the names of the
  two bottleneck files as defaults); no definition raises.
\<close>

theorem train_flags_defined:
  "\<exists>registry. train_flags = Inr registry
     \<and> map (\<lambda>f. (flag_name f, flag_default f)) registry =
        [(''batch_size'', IntegerDefault 32),
         (''epochs'', IntegerDefault 10),
         (''units'', IntegerDefault 512),
         (''l1'', FloatDefault 0.01),
         (''l2'', FloatDefault 0.01),
         (''data_folder'', StringDefault ''./bottleneck''),
         (''train_file_name'', StringDefault ''aerial_bottleneck_train.h5''),
         (''valid_file_name'', StringDefault ''aerial_bottleneck_valid.h5'')]"
  by (simp add: train_flags_def run_statements_def DEFINE_integer_def DEFINE_float_def
      DEFINE_string_def DEFINE_def)

section \<open>Compute target setup\<close>

text \<open>
  Claim C8. In both notebooks the cell asks the SDK to create a compute target exactly
  when the lookup by name raises \<open>ComputeTargetException\<close>. In that case it calls the
  creation with the cell's target name and its provisioning configuration, waits for the
  new target, and binds the target that the creation returned; an exception of the
  creation or of the wait leaves the cell. When the lookup succeeds, the cell only
  prints, the target found is the one it binds and nothing is created. When the lookup
  raises any other exception, that exception leaves the cell and no SDK call or print
  is made after the lookup.
\<close>

theorem compute_target_setup:
  "(created (setup_dsvm sdk) = (sdk_lookup sdk ''gpudsvm'' = Inl ComputeTargetException))
   \<and> (\<forall>t. sdk_lookup sdk ''gpudsvm'' = Inr t \<longrightarrow>
          snd (setup_dsvm sdk) = Inr t \<and> \<not> created (setup_dsvm sdk))
   \<and> (\<forall>msg. sdk_lookup sdk ''gpudsvm'' = Inl (OtherException msg) \<longrightarrow>
          setup_dsvm sdk = ([], Inl (OtherException msg)))
   \<and> (created (setup_batchai ws_name sdk) =
          (sdk_lookup sdk (ws_name @ ''gpucls'') = Inl ComputeTargetException))
   \<and> (\<forall>t. sdk_lookup sdk (ws_name @ ''gpucls'') = Inr t \<longrightarrow>
          snd (setup_batchai ws_name sdk) = Inr t \<and> \<not> created (setup_batchai ws_name sdk))
   \<and> (\<forall>msg. sdk_lookup sdk (ws_name @ ''gpucls'') = Inl (OtherException msg) \<longrightarrow>
          setup_batchai ws_name sdk = ([], Inl (OtherException msg)))
   \<and> (\<forall>t. sdk_lookup sdk ''gpudsvm'' = Inr t \<longrightarrow>
          setup_dsvm sdk = ([Printed (''Found existing DSVM: '' @ sdk_name sdk t)], Inr t))
   \<and> (sdk_lookup sdk ''gpudsvm'' = Inl ComputeTargetException \<longrightarrow>
          setup_dsvm sdk =
            (case sdk_create sdk ''gpudsvm''
                    \<lparr>vm_size = ''Standard_NC6'', autoscale_enabled = False,
                      cluster_min_nodes = None, cluster_max_nodes = None\<rparr> of
               Inl e \<Rightarrow>
                 ([CreateCalled ''gpudsvm''
                     \<lparr>vm_size = ''Standard_NC6'', autoscale_enabled = False,
                       cluster_min_nodes = None, cluster_max_nodes = None\<rparr>], Inl e)
             | Inr t \<Rightarrow>
                 ([CreateCalled ''gpudsvm''
                     \<lparr>vm_size = ''Standard_NC6'', autoscale_enabled = False,
                       cluster_min_nodes = None, cluster_max_nodes = None\<rparr>, WaitCalled],
                  case sdk_wait_for_completion sdk t of Inl e \<Rightarrow> Inl e | Inr u \<Rightarrow> Inr t)))
   \<and> (\<forall>t. sdk_lookup sdk (ws_name @ ''gpucls'') = Inr t \<longrightarrow>
          setup_batchai ws_name sdk =
            ([Printed (if sdk_is_batchai sdk t
                       then ''found compute target '' @ ws_name @ ''gpucls'' @ '', just use it.''
                       else ws_name @ ''gpucls'' @
                            '' exists but it is not a Batch AI cluster. Please choose a different name.'')],
             Inr t))
   \<and> (sdk_lookup sdk (ws_name @ ''gpucls'') = Inl ComputeTargetException \<longrightarrow>
          setup_batchai ws_name sdk =
            (case sdk_create sdk (ws_name @ ''gpucls'')
                    \<lparr>vm_size = ''STANDARD_NC6'', autoscale_enabled = True,
                      cluster_min_nodes = Some 1, cluster_max_nodes = Some 4\<rparr> of
               Inl e \<Rightarrow>
                 ([Printed ''creating a new compute target...'',
                   CreateCalled (ws_name @ ''gpucls'')
                     \<lparr>vm_size = ''STANDARD_NC6'', autoscale_enabled = True,
                       cluster_min_nodes = Some 1, cluster_max_nodes = Some 4\<rparr>], Inl e)
             | Inr t \<Rightarrow>
                 (case sdk_wait_for_completion sdk t of
                    Inl e \<Rightarrow>
                      ([Printed ''creating a new compute target...'',
                        CreateCalled (ws_name @ ''gpucls'')
                          \<lparr>vm_size = ''STANDARD_NC6'', autoscale_enabled = True,
                            cluster_min_nodes = Some 1, cluster_max_nodes = Some 4\<rparr>,
                        WaitCalled], Inl e)
                  | Inr u \<Rightarrow>
                      ([Printed ''creating a new compute target...'',
                        CreateCalled (ws_name @ ''gpucls'')
                          \<lparr>vm_size = ''STANDARD_NC6'', autoscale_enabled = True,
                            cluster_min_nodes = Some 1, cluster_max_nodes = Some 4\<rparr>,
                        WaitCalled, StatusPrinted], Inr t))))"
proof -
  have d: "created (setup_dsvm sdk) = (sdk_lookup sdk ''gpudsvm'' = Inl ComputeTargetException)"
  proof (cases "sdk_lookup sdk ''gpudsvm''")
    case (Inl e)
    show ?thesis
    proof (cases e)
      case ComputeTargetException
      with Inl show ?thesis by (simp add: setup_dsvm_cases(3))
    next
      case (OtherException msg)
      with Inl show ?thesis by (simp add: setup_dsvm_cases(2) created_def)
    qed
  next
    case (Inr t)
    then show ?thesis by (simp add: setup_dsvm_cases created_def)
  qed
  have b: "created (setup_batchai ws_name sdk) =
          (sdk_lookup sdk (ws_name @ ''gpucls'') = Inl ComputeTargetException)"
  proof (cases "sdk_lookup sdk (ws_name @ ''gpucls'')")
    case (Inl e)
    show ?thesis
    proof (cases e)
      case ComputeTargetException
      with Inl show ?thesis by (simp add: setup_batchai_cases(3))
    next
      case (OtherException msg)
      with Inl show ?thesis by (simp add: setup_batchai_cases(2) created_def)
    qed
  next
    case (Inr t)
    then show ?thesis using setup_batchai_cases(1)[of sdk ws_name t] by simp
  qed
  have dn: "sdk_lookup sdk ''gpudsvm'' = Inl ComputeTargetException \<longrightarrow>
          setup_dsvm sdk =
            (case sdk_create sdk ''gpudsvm''
                    \<lparr>vm_size = ''Standard_NC6'', autoscale_enabled = False,
                      cluster_min_nodes = None, cluster_max_nodes = None\<rparr> of
               Inl e \<Rightarrow>
                 ([CreateCalled ''gpudsvm''
                     \<lparr>vm_size = ''Standard_NC6'', autoscale_enabled = False,
                       cluster_min_nodes = None, cluster_max_nodes = None\<rparr>], Inl e)
             | Inr t \<Rightarrow>
                 ([CreateCalled ''gpudsvm''
                     \<lparr>vm_size = ''Standard_NC6'', autoscale_enabled = False,
                       cluster_min_nodes = None, cluster_max_nodes = None\<rparr>, WaitCalled],
                  case sdk_wait_for_completion sdk t of Inl e \<Rightarrow> Inl e | Inr u \<Rightarrow> Inr t))"
    by (simp add: setup_dsvm_def Let_def split: sum.splits)
  have bf: "setup_batchai ws_name sdk =
            ([Printed (if sdk_is_batchai sdk t
                       then ''found compute target '' @ ws_name @ ''gpucls'' @ '', just use it.''
                       else ws_name @ ''gpucls'' @
                            '' exists but it is not a Batch AI cluster. Please choose a different name.'')],
             Inr t)"
    if "sdk_lookup sdk (ws_name @ ''gpucls'') = Inr t" for t
    using that by (simp add: setup_batchai_def Let_def)
  have bn: "sdk_lookup sdk (ws_name @ ''gpucls'') = Inl ComputeTargetException \<longrightarrow>
          setup_batchai ws_name sdk =
            (case sdk_create sdk (ws_name @ ''gpucls'')
                    \<lparr>vm_size = ''STANDARD_NC6'', autoscale_enabled = True,
                      cluster_min_nodes = Some 1, cluster_max_nodes = Some 4\<rparr> of
               Inl e \<Rightarrow>
                 ([Printed ''creating a new compute target...'',
                   CreateCalled (ws_name @ ''gpucls'')
                     \<lparr>vm_size = ''STANDARD_NC6'', autoscale_enabled = True,
                       cluster_min_nodes = Some 1, cluster_max_nodes = Some 4\<rparr>], Inl e)
             | Inr t \<Rightarrow>
                 (case sdk_wait_for_completion sdk t of
                    Inl e \<Rightarrow>
                      ([Printed ''creating a new compute target...'',
                        CreateCalled (ws_name @ ''gpucls'')
                          \<lparr>vm_size = ''STANDARD_NC6'', autoscale_enabled = True,
                            cluster_min_nodes = Some 1, cluster_max_nodes = Some 4\<rparr>,
                        WaitCalled], Inl e)
                  | Inr u \<Rightarrow>
                      ([Printed ''creating a new compute target...'',
                        CreateCalled (ws_name @ ''gpucls'')
                          \<lparr>vm_size = ''STANDARD_NC6'', autoscale_enabled = True,
                            cluster_min_nodes = Some 1, cluster_max_nodes = Some 4\<rparr>,
                        WaitCalled, StatusPrinted], Inr t)))"
    by (simp add: setup_batchai_def Let_def split: sum.splits)
  have old: "(\<forall>t. sdk_lookup sdk ''gpudsvm'' = Inr t \<longrightarrow>
          snd (setup_dsvm sdk) = Inr t \<and> \<not> created (setup_dsvm sdk))
   \<and> (\<forall>msg. sdk_lookup sdk ''gpudsvm'' = Inl (OtherException msg) \<longrightarrow>
          setup_dsvm sdk = ([], Inl (OtherException msg)))
   \<and> (\<forall>t. sdk_lookup sdk (ws_name @ ''gpucls'') = Inr t \<longrightarrow>
          snd (setup_batchai ws_name sdk) = Inr t \<and> \<not> created (setup_batchai ws_name sdk))
   \<and> (\<forall>msg. sdk_lookup sdk (ws_name @ ''gpucls'') = Inl (OtherException msg) \<longrightarrow>
          setup_batchai ws_name sdk = ([], Inl (OtherException msg)))
   \<and> (\<forall>t. sdk_lookup sdk ''gpudsvm'' = Inr t \<longrightarrow>
          setup_dsvm sdk = ([Printed (''Found existing DSVM: '' @ sdk_name sdk t)], Inr t))"
    using setup_dsvm_cases(1,2)[of sdk] setup_batchai_cases(1,2)[of sdk ws_name]
    by (simp add: created_def)
  show ?thesis
    using d b dn bn bf old by blast
qed

theorem compute_target_setup_witness:
  "sdk_lookup sdk_missing ''gpudsvm'' = Inl ComputeTargetException
   \<and> created (setup_dsvm sdk_missing)
   \<and> setup_dsvm sdk_missing =
       ([CreateCalled ''gpudsvm''
           \<lparr>vm_size = ''Standard_NC6'', autoscale_enabled = False,
             cluster_min_nodes = None, cluster_max_nodes = None\<rparr>, WaitCalled],
        Inr ''gpudsvm'')
   \<and> sdk_lookup sdk_found ''gpudsvm'' = Inr ''gpudsvm''
   \<and> snd (setup_dsvm sdk_found) = Inr ''gpudsvm'' \<and> \<not> created (setup_dsvm sdk_found)
   \<and> setup_dsvm sdk_found = ([Printed ''Found existing DSVM: gpudsvm''], Inr ''gpudsvm'')
   \<and> sdk_lookup sdk_failing ''gpudsvm'' = Inl (OtherException ''ConnectionError'')
   \<and> setup_dsvm sdk_failing = ([], Inl (OtherException ''ConnectionError''))
   \<and> sdk_lookup sdk_missing (''jkaml'' @ ''gpucls'') = Inl ComputeTargetException
   \<and> created (setup_batchai ''jkaml'' sdk_missing)
   \<and> setup_batchai ''jkaml'' sdk_missing =
       ([Printed ''creating a new compute target...'',
         CreateCalled ''jkamlgpucls''
           \<lparr>vm_size = ''STANDARD_NC6'', autoscale_enabled = True,
             cluster_min_nodes = Some 1, cluster_max_nodes = Some 4\<rparr>,
         WaitCalled, StatusPrinted],
        Inr ''jkamlgpucls'')
   \<and> sdk_lookup sdk_found (''jkaml'' @ ''gpucls'') = Inr ''jkamlgpucls''
   \<and> snd (setup_batchai ''jkaml'' sdk_found) = Inr ''jkamlgpucls''
   \<and> \<not> created (setup_batchai ''jkaml'' sdk_found)
   \<and> setup_batchai ''jkaml'' sdk_found =
       ([Printed ''found compute target jkamlgpucls, just use it.''], Inr ''jkamlgpucls'')
   \<and> sdk_lookup sdk_failing (''jkaml'' @ ''gpucls'') = Inl (OtherException ''ConnectionError'')
   \<and> setup_batchai ''jkaml'' sdk_failing = ([], Inl (OtherException ''ConnectionError''))"
proof -
  have m: "sdk_lookup sdk_missing ''gpudsvm'' = Inl ComputeTargetException"
    "sdk_lookup sdk_missing (''jkaml'' @ ''gpucls'') = Inl ComputeTargetException"
    by (simp_all add: sdk_missing_def)
  have f: "sdk_lookup sdk_found ''gpudsvm'' = Inr ''gpudsvm''"
    "sdk_lookup sdk_found (''jkaml'' @ ''gpucls'') = Inr ''jkamlgpucls''"
    by (simp_all add: sdk_found_def)
  have x: "sdk_lookup sdk_failing ''gpudsvm'' = Inl (OtherException ''ConnectionError'')"
    "sdk_lookup sdk_failing (''jkaml'' @ ''gpucls'') = Inl (OtherException ''ConnectionError'')"
    by (simp_all add: sdk_failing_def)
  have mc: "sdk_create sdk_missing = (\<lambda>name config. Inr name)"
    "sdk_wait_for_completion sdk_missing = (\<lambda>t. Inr ())"
    by (simp_all add: sdk_missing_def)
  have fn: "sdk_name sdk_found = (\<lambda>t. t)" "sdk_is_batchai sdk_found = (\<lambda>t. True)"
    by (simp_all add: sdk_found_def)
  note tm = compute_target_setup[of sdk_missing "''jkaml''"]
  note tf = compute_target_setup[of sdk_found "''jkaml''"]
  note tx = compute_target_setup[of sdk_failing "''jkaml''"]
  from tm m have 1: "created (setup_dsvm sdk_missing)" "created (setup_batchai ''jkaml'' sdk_missing)"
    by blast+
  from tm m have "setup_dsvm sdk_missing =
            (case sdk_create sdk_missing ''gpudsvm''
                    \<lparr>vm_size = ''Standard_NC6'', autoscale_enabled = False,
                      cluster_min_nodes = None, cluster_max_nodes = None\<rparr> of
               Inl e \<Rightarrow>
                 ([CreateCalled ''gpudsvm''
                     \<lparr>vm_size = ''Standard_NC6'', autoscale_enabled = False,
                       cluster_min_nodes = None, cluster_max_nodes = None\<rparr>], Inl e)
             | Inr t \<Rightarrow>
                 ([CreateCalled ''gpudsvm''
                     \<lparr>vm_size = ''Standard_NC6'', autoscale_enabled = False,
                       cluster_min_nodes = None, cluster_max_nodes = None\<rparr>, WaitCalled],
                  case sdk_wait_for_completion sdk_missing t of Inl e \<Rightarrow> Inl e | Inr u \<Rightarrow> Inr t))"
    by blast
  then have m1: "setup_dsvm sdk_missing =
       ([CreateCalled ''gpudsvm''
           \<lparr>vm_size = ''Standard_NC6'', autoscale_enabled = False,
             cluster_min_nodes = None, cluster_max_nodes = None\<rparr>, WaitCalled],
        Inr ''gpudsvm'')"
    by (simp add: mc)
  from tm m have "setup_batchai ''jkaml'' sdk_missing =
            (case sdk_create sdk_missing (''jkaml'' @ ''gpucls'')
                    \<lparr>vm_size = ''STANDARD_NC6'', autoscale_enabled = True,
                      cluster_min_nodes = Some 1, cluster_max_nodes = Some 4\<rparr> of
               Inl e \<Rightarrow>
                 ([Printed ''creating a new compute target...'',
                   CreateCalled (''jkaml'' @ ''gpucls'')
                     \<lparr>vm_size = ''STANDARD_NC6'', autoscale_enabled = True,
                       cluster_min_nodes = Some 1, cluster_max_nodes = Some 4\<rparr>], Inl e)
             | Inr t \<Rightarrow>
                 (case sdk_wait_for_completion sdk_missing t of
                    Inl e \<Rightarrow>
                      ([Printed ''creating a new compute target...'',
                        CreateCalled (''jkaml'' @ ''gpucls'')
                          \<lparr>vm_size = ''STANDARD_NC6'', autoscale_enabled = True,
                            cluster_min_nodes = Some 1, cluster_max_nodes = Some 4\<rparr>,
                        WaitCalled], Inl e)
                  | Inr u \<Rightarrow>
                      ([Printed ''creating a new compute target...'',
                        CreateCalled (''jkaml'' @ ''gpucls'')
                          \<lparr>vm_size = ''STANDARD_NC6'', autoscale_enabled = True,
                            cluster_min_nodes = Some 1, cluster_max_nodes = Some 4\<rparr>,
                        WaitCalled, StatusPrinted], Inr t)))"
    by blast
  then have m2: "setup_batchai ''jkaml'' sdk_missing =
       ([Printed ''creating a new compute target...'',
         CreateCalled ''jkamlgpucls''
           \<lparr>vm_size = ''STANDARD_NC6'', autoscale_enabled = True,
             cluster_min_nodes = Some 1, cluster_max_nodes = Some 4\<rparr>,
         WaitCalled, StatusPrinted],
        Inr ''jkamlgpucls'')"
    by (simp add: mc)
  from tf f have 2: "snd (setup_dsvm sdk_found) = Inr ''gpudsvm'' \<and> \<not> created (setup_dsvm sdk_found)"
    "snd (setup_batchai ''jkaml'' sdk_found) = Inr ''jkamlgpucls'' \<and> \<not> created (setup_batchai ''jkaml'' sdk_found)"
    by blast+
  from tf f have "setup_dsvm sdk_found =
      ([Printed (''Found existing DSVM: '' @ sdk_name sdk_found ''gpudsvm'')], Inr ''gpudsvm'')"
    by blast
  then have f1: "setup_dsvm sdk_found = ([Printed ''Found existing DSVM: gpudsvm''], Inr ''gpudsvm'')"
    by (simp add: fn)
  from tf f have "setup_batchai ''jkaml'' sdk_found =
            ([Printed (if sdk_is_batchai sdk_found ''jkamlgpucls''
                       then ''found compute target '' @ ''jkaml'' @ ''gpucls'' @ '', just use it.''
                       else ''jkaml'' @ ''gpucls'' @
                            '' exists but it is not a Batch AI cluster. Please choose a different name.'')],
             Inr ''jkamlgpucls'')"
    by blast
  then have f2: "setup_batchai ''jkaml'' sdk_found =
       ([Printed ''found compute target jkamlgpucls, just use it.''], Inr ''jkamlgpucls'')"
    by (simp add: fn)
  from tx x have 3: "setup_dsvm sdk_failing = ([], Inl (OtherException ''ConnectionError''))"
    "setup_batchai ''jkaml'' sdk_failing = ([], Inl (OtherException ''ConnectionError''))"
    by blast+
  from m f x 1 m1 m2 2 f1 f2 3 show ?thesis by blast
qed

section \<open>The hyperparameter grid\<close>

text \<open>
  Claim C4 asks that runs be submitted over the whole Cartesian product. The grid of
  the notebook has 2 * 3 * 3 = 18 points, all different, but the run configuration sets
  \<open>max_total_runs\<close> to 12: the runs created are 12 different points of the grid, and 6
  points are never submitted.
\<close>

theorem grid_search_runs:
  "length (grid_points (hyperparameter_sampling htc)) = 2 * 3 * 3
   \<and> distinct (grid_points (hyperparameter_sampling htc))
   \<and> max_total_runs htc = 12
   \<and> length (submitted_runs htc) = 12
   \<and> distinct (submitted_runs htc)
   \<and> length (submitted_runs htc) < length (grid_points (hyperparameter_sampling htc))"
proof -
  have d: "distinct (grid_points ps)"
    by (rule grid_points_distinct) (auto simp: ps_def)
  have l: "length (grid_points ps) = 18"
    by (simp add: grid_points_length ps_def)
  have h: "hyperparameter_sampling htc = ps" "max_total_runs htc = 12" by (simp_all add: htc_def)
  have "distinct (take 12 (grid_points ps))" using d by (rule distinct_take)
  then show ?thesis using d l by (simp add: submitted_runs_def h)
qed

end
